theory Spec2Isabelle
  imports Complex_Main
begin

section \<open>The Multitalk worker handler (runpod-workers/multitalk/handler.py)\<close>

text \<open>
  The handler is a Python script that glues HTTP calls, the local file system and the
  JSON values of the job together. The embedding keeps the functions of handler.py under
  their names and makes explicit what Python leaves implicit:
  \<^item> a JSON value (what \<^verbatim>\<open>json.load\<close> and \<^verbatim>\<open>response.json()\<close> return, and what
    the job input holds) is a value of the datatype \<open>json\<close>; a dict is an association
    list in insertion order, looked up with \<open>map_of\<close> (a dict read from JSON has no key
    twice);
  \<^item> \<^verbatim>\<open>str\<close> and \<^verbatim>\<open>bytes\<close> are both \<open>string\<close>: a list of 8-bit characters, read as the
    code points 0 to 255 for text (text with other code points is outside the model);
  \<^item> a float is the rational it denotes, or an infinity or NaN: rounding is not
    modelled, and nothing below depends on float arithmetic;
  \<^item> a raised exception is a value \<open>PyExc cls text\<close>, the text being that of
    CPython 3.11; a function that can raise returns \<open>pyexc + 'a\<close>;
  \<^item> the network, the clock, the random generator and the parts of the interpreter
    that are not the handler's (float syntax, JSON syntax, UTF-8 decoding) are an
    environment \<open>env\<close>, consulted by a step index, so a run is a function of the
    environment; the file system, the clock and the trace of operations are the
    \<open>world\<close>, passed through every function that touches them;
  \<^item> the clock counts milliseconds and never goes back; reading and writing a file
    that exists does not fail, so the \<^verbatim>\<open>except\<close> branches of the two validators
    (\<^verbatim>\<open>Validation error\<close>) are not reached; printing is left out, but what a printed
    f-string evaluates is kept where it can raise.
\<close>

subsection \<open>Python values\<close>

datatype pyfloat = Finite rat | PosInf | NegInf | NaN

datatype json =
    JNull
  | JBool bool
  | JInt int
  | JFloat pyfloat
  | JStr string
  | JList "json list"
  | JDict "(string \<times> json) list"

datatype exc_class =
    KeyError | TypeError | ValueError | AttributeError | IndexError
  | ZeroDivisionError | OverflowError
  | Timeout | RequestException | OtherException

datatype pyexc = PyExc exc_class string

fun exc_class_of :: "pyexc \<Rightarrow> exc_class" where
  "exc_class_of (PyExc c t) = c"

text \<open>\<^verbatim>\<open>str(e)\<close> of an exception.\<close>

fun exc_str :: "pyexc \<Rightarrow> string" where
  "exc_str (PyExc c t) = t"

text \<open>\<^verbatim>\<open>requests.exceptions.Timeout\<close> is a subclass of \<^verbatim>\<open>RequestException\<close>.\<close>

fun is_request_exception :: "pyexc \<Rightarrow> bool" where
  "is_request_exception (PyExc c t) = (c = Timeout \<or> c = RequestException)"

fun is_timeout :: "pyexc \<Rightarrow> bool" where
  "is_timeout (PyExc c t) = (c = Timeout)"

definition bindE :: "pyexc + 'a \<Rightarrow> ('a \<Rightarrow> pyexc + 'b) \<Rightarrow> pyexc + 'b" where
  "bindE m f = (case m of Inl e \<Rightarrow> Inl e | Inr v \<Rightarrow> f v)"

lemma bindE_Inl [simp]: "bindE (Inl e) f = Inl e"
  by (simp add: bindE_def)

lemma bindE_Inr [simp]: "bindE (Inr v) f = f v"
  by (simp add: bindE_def)

fun type_name :: "json \<Rightarrow> string" where
  "type_name JNull = ''NoneType''"
| "type_name (JBool b) = ''bool''"
| "type_name (JInt n) = ''int''"
| "type_name (JFloat f) = ''float''"
| "type_name (JStr s) = ''str''"
| "type_name (JList xs) = ''list''"
| "type_name (JDict kvs) = ''dict''"

subsection \<open>Text: substring search, decimal numerals, repr\<close>

text \<open>\<^verbatim>\<open>t in s\<close> on \<^verbatim>\<open>str\<close> and \<^verbatim>\<open>bytes\<close>: \<open>t\<close> occurs in \<open>s\<close> as a contiguous run.\<close>

fun occurs_in :: "string \<Rightarrow> string \<Rightarrow> bool" where
  "occurs_in t [] = (t = [])"
| "occurs_in t (c # s) = (take (length t) (c # s) = t \<or> occurs_in t s)"

definition digit_char :: "nat \<Rightarrow> char" where
  "digit_char d = ''0123456789'' ! d"

fun str_nat :: "nat \<Rightarrow> string" where
  "str_nat n = (if n < 10 then [digit_char n] else str_nat (n div 10) @ [digit_char (n mod 10)])"

declare str_nat.simps [simp del]

text \<open>\<^verbatim>\<open>str(n)\<close> of an \<^verbatim>\<open>int\<close>.\<close>

definition str_int :: "int \<Rightarrow> string" where
  "str_int i = (if i < 0 then CHR ''-'' # str_nat (nat (- i)) else str_nat (nat i))"

definition hex_char :: "nat \<Rightarrow> char" where
  "hex_char d = ''0123456789abcdef'' ! d"

text \<open>
  \<^verbatim>\<open>repr\<close> of a \<^verbatim>\<open>str\<close>: single quotes, unless the text has a single quote and no double
  quote; the quote and the backslash escaped, tab, newline and return by letter, the
  other characters that are not printable as \<^verbatim>\<open>\xhh\<close>.
\<close>

definition printable :: "char \<Rightarrow> bool" where
  "printable c = (let n = (of_char c :: nat) in
     32 \<le> n \<and> n \<noteq> 127 \<and> \<not> (128 \<le> n \<and> n \<le> 160) \<and> n \<noteq> 173)"

definition repr_char :: "char \<Rightarrow> char \<Rightarrow> string" where
  "repr_char q c =
     (if c = q \<or> c = CHR 0x5C then [CHR 0x5C, c]
      else if c = CHR 0x09 then [CHR 0x5C, CHR ''t'']
      else if c = CHR 0x0A then [CHR 0x5C, CHR ''n'']
      else if c = CHR 0x0D then [CHR 0x5C, CHR ''r'']
      else if printable c then [c]
      else [CHR 0x5C, CHR ''x'', hex_char (of_char c div 16), hex_char (of_char c mod 16)])"

definition repr_str :: "string \<Rightarrow> string" where
  "repr_str s =
     (let q = (if CHR 0x27 \<in> set s \<and> CHR 0x22 \<notin> set s then CHR 0x22 else CHR 0x27)
      in q # concat (map (repr_char q) s) @ [q])"

text \<open>\<^verbatim>\<open>sep.join(xs)\<close>.\<close>

fun join :: "string \<Rightarrow> string list \<Rightarrow> string" where
  "join sep [] = []"
| "join sep [x] = x"
| "join sep (x # y # ys) = x @ sep @ join sep (y # ys)"

subsection \<open>The environment\<close>

text \<open>
  What \<^verbatim>\<open>requests\<close> hands back: the status code, \<^verbatim>\<open>response.text\<close> (\<open>body_text\<close>),
  \<^verbatim>\<open>response.content\<close>, the Content-Type header when there is one, and what
  \<^verbatim>\<open>response.json()\<close> does (it returns a value or raises).
\<close>

record response =
  status_code :: int
  body_text :: string
  content :: string
  content_type :: "string option"
  json_body :: "pyexc + json"

text \<open>
  The requests the handler makes: \<^verbatim>\<open>requests.get(url)\<close>,
  \<^verbatim>\<open>requests.post(url, json=body)\<close> and \<^verbatim>\<open>requests.put(url, data=file)\<close> with the
  bytes of the file.
\<close>

datatype http_call = HttpGet json | HttpPost string json | HttpPut json string

text \<open>
  The environment of one run. The step index counts the interactions so far, so the
  answers may differ from one call to the next:
  \<^item> \<open>net n call\<close>: the outcome of the request made as interaction \<open>n\<close> (a response or
    the exception \<^verbatim>\<open>requests\<close> raises) and the milliseconds it took;
  \<^item> \<open>oversleep n\<close>: the milliseconds \<^verbatim>\<open>time.sleep\<close> sleeps beyond what was asked;
  \<^item> \<open>entropy n\<close>: the number the random generator draws from;
  \<^item> \<open>outside n\<close>: what other processes (the engine) do to the files meanwhile;
  \<^item> \<open>float_of_str\<close>, \<open>float_repr\<close>, \<open>json_loads\<close>, \<open>utf8_decode\<close>: the interpreter's
    \<^verbatim>\<open>float(str)\<close> (None: ValueError), \<^verbatim>\<open>repr(float)\<close>, \<^verbatim>\<open>json.load\<close> and
    \<^verbatim>\<open>bytes.decode('utf-8', errors='ignore')\<close>.
\<close>

record env =
  net :: "nat \<Rightarrow> http_call \<Rightarrow> (pyexc + response) \<times> nat"
  oversleep :: "nat \<Rightarrow> nat"
  entropy :: "nat \<Rightarrow> nat"
  outside :: "nat \<Rightarrow> (string \<Rightarrow> string option) \<Rightarrow> (string \<Rightarrow> string option)"
  float_of_str :: "string \<Rightarrow> pyfloat option"
  float_repr :: "pyfloat \<Rightarrow> string"
  json_loads :: "string \<Rightarrow> pyexc + json"
  utf8_decode :: "string \<Rightarrow> string"

subsection \<open>Python's operations on values\<close>

text \<open>\<^verbatim>\<open>repr(x)\<close> of a JSON value, and \<^verbatim>\<open>str(x)\<close>, what an f-string puts for \<^verbatim>\<open>{x}\<close>.\<close>

fun py_repr :: "env \<Rightarrow> json \<Rightarrow> string" where
  "py_repr E JNull = ''None''"
| "py_repr E (JBool b) = (if b then ''True'' else ''False'')"
| "py_repr E (JInt n) = str_int n"
| "py_repr E (JFloat f) = float_repr E f"
| "py_repr E (JStr s) = repr_str s"
| "py_repr E (JList xs) = ''['' @ join '', '' (map (py_repr E) xs) @ '']''"
| "py_repr E (JDict kvs) =
     ''{'' @ join '', '' (map (\<lambda>kv. repr_str (fst kv) @ '': '' @ py_repr E (snd kv)) kvs) @ ''}''"

fun py_str :: "env \<Rightarrow> json \<Rightarrow> string" where
  "py_str E (JStr s) = s"
| "py_str E v = py_repr E v"

text \<open>\<^verbatim>\<open>bool(x)\<close>.\<close>

fun py_bool :: "json \<Rightarrow> bool" where
  "py_bool JNull = False"
| "py_bool (JBool b) = b"
| "py_bool (JInt n) = (n \<noteq> 0)"
| "py_bool (JFloat f) = (f \<noteq> Finite 0)"
| "py_bool (JStr s) = (s \<noteq> [])"
| "py_bool (JList xs) = (xs \<noteq> [])"
| "py_bool (JDict kvs) = (kvs \<noteq> [])"

text \<open>\<^verbatim>\<open>len(x)\<close>.\<close>

fun py_len :: "json \<Rightarrow> pyexc + nat" where
  "py_len (JStr s) = Inr (length s)"
| "py_len (JList xs) = Inr (length xs)"
| "py_len (JDict kvs) = Inr (length kvs)"
| "py_len v = Inl (PyExc TypeError (''object of type '' @ repr_str (type_name v) @ '' has no len()''))"

text \<open>
  \<^verbatim>\<open>a == b\<close>, exact on None, booleans, numbers and strings (\<^verbatim>\<open>True == 1 == 1.0\<close>);
  lists and dicts are compared as they are written.
\<close>

fun num_of :: "json \<Rightarrow> rat option" where
  "num_of (JBool b) = Some (if b then 1 else 0)"
| "num_of (JInt n) = Some (of_int n)"
| "num_of (JFloat (Finite q)) = Some q"
| "num_of v = None"

definition py_eq :: "json \<Rightarrow> json \<Rightarrow> bool" where
  "py_eq a b = (case (num_of a, num_of b) of (Some x, Some y) \<Rightarrow> x = y | _ \<Rightarrow> a = b)"

text \<open>\<^verbatim>\<open>x in c\<close>: a key of a dict, an element of a list, a substring of a str.\<close>

fun py_in :: "json \<Rightarrow> json \<Rightarrow> pyexc + bool" where
  "py_in x (JDict kvs) =
     (case x of
        JStr k \<Rightarrow> Inr (k \<in> set (map fst kvs))
      | JList xs \<Rightarrow> Inl (PyExc TypeError (''unhashable type: '' @ repr_str ''list''))
      | JDict d \<Rightarrow> Inl (PyExc TypeError (''unhashable type: '' @ repr_str ''dict''))
      | _ \<Rightarrow> Inr False)"
| "py_in x (JList xs) = Inr (list_ex (py_eq x) xs)"
| "py_in x (JStr s) =
     (case x of
        JStr t \<Rightarrow> Inr (occurs_in t s)
      | _ \<Rightarrow> Inl (PyExc TypeError
          (repr_str ''in <string>'' @ '' requires string as left operand, not '' @ type_name x)))"
| "py_in x c = Inl (PyExc TypeError (''argument of type '' @ repr_str (type_name c) @ '' is not iterable''))"

text \<open>\<^verbatim>\<open>xs[i]\<close> on a sequence: a negative index counts from the end.\<close>

definition seq_index :: "'a list \<Rightarrow> int \<Rightarrow> 'a option" where
  "seq_index xs i =
     (if 0 \<le> i \<and> i < int (length xs) then Some (xs ! nat i)
      else if i < 0 \<and> - int (length xs) \<le> i then Some (xs ! nat (int (length xs) + i))
      else None)"

text \<open>\<^verbatim>\<open>c[k]\<close>.\<close>

fun py_getitem :: "env \<Rightarrow> json \<Rightarrow> json \<Rightarrow> pyexc + json" where
  "py_getitem E (JDict kvs) k =
     (case k of
        JStr s \<Rightarrow> (case map_of kvs s of Some v \<Rightarrow> Inr v | None \<Rightarrow> Inl (PyExc KeyError (py_repr E k)))
      | JList xs \<Rightarrow> Inl (PyExc TypeError (''unhashable type: '' @ repr_str ''list''))
      | JDict d \<Rightarrow> Inl (PyExc TypeError (''unhashable type: '' @ repr_str ''dict''))
      | _ \<Rightarrow> Inl (PyExc KeyError (py_repr E k)))"
| "py_getitem E (JList xs) k =
     (case k of
        JInt i \<Rightarrow> (case seq_index xs i of Some v \<Rightarrow> Inr v
                    | None \<Rightarrow> Inl (PyExc IndexError ''list index out of range''))
      | JBool b \<Rightarrow> (case seq_index xs (if b then 1 else 0) of Some v \<Rightarrow> Inr v
                    | None \<Rightarrow> Inl (PyExc IndexError ''list index out of range''))
      | _ \<Rightarrow> Inl (PyExc TypeError (''list indices must be integers or slices, not '' @ type_name k)))"
| "py_getitem E (JStr s) k =
     (case k of
        JInt i \<Rightarrow> (case seq_index s i of Some c \<Rightarrow> Inr (JStr [c])
                    | None \<Rightarrow> Inl (PyExc IndexError ''string index out of range''))
      | JBool b \<Rightarrow> (case seq_index s (if b then 1 else 0) of Some c \<Rightarrow> Inr (JStr [c])
                    | None \<Rightarrow> Inl (PyExc IndexError ''string index out of range''))
      | _ \<Rightarrow> Inl (PyExc TypeError (''string indices must be integers, not '' @ repr_str (type_name k))))"
| "py_getitem E c k = Inl (PyExc TypeError (repr_str (type_name c) @ '' object is not subscriptable''))"

text \<open>\<^verbatim>\<open>c.get(k, default)\<close> with a string key: only a dict has the method.\<close>

fun py_get :: "json \<Rightarrow> string \<Rightarrow> json \<Rightarrow> pyexc + json" where
  "py_get (JDict kvs) k d = Inr (case map_of kvs k of Some v \<Rightarrow> v | None \<Rightarrow> d)"
| "py_get c k d = Inl (PyExc AttributeError (repr_str (type_name c) @ '' object has no attribute '' @ repr_str ''get''))"

text \<open>
  A dict after \<^verbatim>\<open>d[k] = v\<close>: the value of an existing key is replaced where it stands, a
  new key goes to the end.
\<close>

fun dict_set :: "string \<Rightarrow> json \<Rightarrow> (string \<times> json) list \<Rightarrow> (string \<times> json) list" where
  "dict_set k v [] = [(k, v)]"
| "dict_set k v (p # ps) = (if fst p = k then (k, v) # ps else p # dict_set k v ps)"

text \<open>\<^verbatim>\<open>c[k] = v\<close> with a string key.\<close>

fun py_setitem :: "json \<Rightarrow> string \<Rightarrow> json \<Rightarrow> pyexc + json" where
  "py_setitem (JDict kvs) k v = Inr (JDict (dict_set k v kvs))"
| "py_setitem (JList xs) k v = Inl (PyExc TypeError ''list indices must be integers or slices, not str'')"
| "py_setitem c k v = Inl (PyExc TypeError (repr_str (type_name c) @ '' object does not support item assignment''))"

text \<open>The elements \<^verbatim>\<open>for x in c\<close> runs through.\<close>

fun py_iter :: "json \<Rightarrow> pyexc + json list" where
  "py_iter (JList xs) = Inr xs"
| "py_iter (JDict kvs) = Inr (map (\<lambda>kv. JStr (fst kv)) kvs)"
| "py_iter (JStr s) = Inr (map (\<lambda>c. JStr [c]) s)"
| "py_iter c = Inl (PyExc TypeError (repr_str (type_name c) @ '' object is not iterable''))"

text \<open>\<^verbatim>\<open>c[:n]\<close>: the handler only prints it, so only whether it raises matters.\<close>

fun py_prefix :: "json \<Rightarrow> nat \<Rightarrow> pyexc + json" where
  "py_prefix (JStr s) n = Inr (JStr (take n s))"
| "py_prefix (JList xs) n = Inr (JList (take n xs))"
| "py_prefix (JDict kvs) n = Inl (PyExc TypeError (''unhashable type: '' @ repr_str ''slice''))"
| "py_prefix c n = Inl (PyExc TypeError (repr_str (type_name c) @ '' object is not subscriptable''))"

subsection \<open>Conversions: \<^verbatim>\<open>int(x)\<close> and \<^verbatim>\<open>float(x)\<close>\<close>

text \<open>The characters \<^verbatim>\<open>int(str)\<close> strips from both ends.\<close>

definition py_space :: "char \<Rightarrow> bool" where
  "py_space c = (let n = (of_char c :: nat) in
     (9 \<le> n \<and> n \<le> 13) \<or> (28 \<le> n \<and> n \<le> 32) \<or> n = 133 \<or> n = 160)"

definition strip :: "string \<Rightarrow> string" where
  "strip s = rev (dropWhile py_space (rev (dropWhile py_space s)))"

definition is_digit :: "char \<Rightarrow> bool" where
  "is_digit c = (let n = (of_char c :: nat) in 48 \<le> n \<and> n \<le> 57)"

definition digit_val :: "char \<Rightarrow> nat" where
  "digit_val c = of_char c - 48"

text \<open>
  Decimal digits after the first one: a single underscore may stand between two
  digits.
\<close>

fun dec_digits :: "nat \<Rightarrow> string \<Rightarrow> nat option" where
  "dec_digits acc [] = Some acc"
| "dec_digits acc [c] = (if is_digit c then Some (10 * acc + digit_val c) else None)"
| "dec_digits acc (c # d # s) =
     (if is_digit c then dec_digits (10 * acc + digit_val c) (d # s)
      else if c = CHR ''_'' \<and> is_digit d then dec_digits (10 * acc + digit_val d) s
      else None)"

definition dec_literal :: "string \<Rightarrow> nat option" where
  "dec_literal s =
     (case s of [] \<Rightarrow> None
      | c # r \<Rightarrow> if is_digit c then dec_digits (digit_val c) r else None)"

text \<open>
  The integer a string denotes in base 10, if it is an integer literal. The limit on
  the number of digits (4300 by default) is not modelled.
\<close>

definition int_literal :: "string \<Rightarrow> int option" where
  "int_literal s =
     (case strip s of
        [] \<Rightarrow> None
      | c # r \<Rightarrow>
          if c = CHR ''-'' then map_option (\<lambda>n. - int n) (dec_literal r)
          else if c = CHR ''+'' then map_option int (dec_literal r)
          else map_option int (dec_literal (c # r)))"

text \<open>\<^verbatim>\<open>int(x)\<close>: a float is truncated towards zero.\<close>

fun py_int :: "json \<Rightarrow> pyexc + int" where
  "py_int (JInt n) = Inr n"
| "py_int (JBool b) = Inr (if b then 1 else 0)"
| "py_int (JFloat f) =
     (case f of
        Finite q \<Rightarrow> Inr (if 0 \<le> q then \<lfloor>q\<rfloor> else \<lceil>q\<rceil>)
      | NaN \<Rightarrow> Inl (PyExc ValueError ''cannot convert float NaN to integer'')
      | _ \<Rightarrow> Inl (PyExc OverflowError ''cannot convert float infinity to integer''))"
| "py_int (JStr s) =
     (case int_literal s of
        Some n \<Rightarrow> Inr n
      | None \<Rightarrow> Inl (PyExc ValueError (''invalid literal for int() with base 10: '' @ repr_str s)))"
| "py_int v = Inl (PyExc TypeError
     (''int() argument must be a string, a bytes-like object or a real number, not ''
        @ repr_str (type_name v)))"

text \<open>
  \<^verbatim>\<open>float(x)\<close>. A float is kept as the rational it denotes: rounding to a double is not
  modelled, an integer beyond the range of a double raises OverflowError.
\<close>

fun py_float :: "env \<Rightarrow> json \<Rightarrow> pyexc + pyfloat" where
  "py_float E (JFloat f) = Inr f"
| "py_float E (JInt n) =
     (if 2 ^ 1024 - 2 ^ 970 \<le> \<bar>n\<bar> then Inl (PyExc OverflowError ''int too large to convert to float'')
      else Inr (Finite (of_int n)))"
| "py_float E (JBool b) = Inr (Finite (if b then 1 else 0))"
| "py_float E (JStr s) =
     (case float_of_str E s of
        Some f \<Rightarrow> Inr f
      | None \<Rightarrow> Inl (PyExc ValueError (''could not convert string to float: '' @ repr_str s)))"
| "py_float E v = Inl (PyExc TypeError
     (''float() argument must be a string or a real number, not '' @ repr_str (type_name v)))"

text \<open>\<^verbatim>\<open>n / f\<close> with an \<^verbatim>\<open>int\<close> on the left and a \<^verbatim>\<open>float\<close> on the right.\<close>

definition py_truediv :: "int \<Rightarrow> pyfloat \<Rightarrow> pyexc + pyfloat" where
  "py_truediv n f =
     (if 2 ^ 1024 - 2 ^ 970 \<le> \<bar>n\<bar> then Inl (PyExc OverflowError ''int too large to convert to float'')
      else
        (case f of
           Finite q \<Rightarrow>
             if q = 0 then Inl (PyExc ZeroDivisionError ''float division by zero'')
             else Inr (Finite (of_int n / q))
         | NaN \<Rightarrow> Inr NaN
         | _ \<Rightarrow> Inr (Finite 0)))"

subsection \<open>The world: clock, files, trace\<close>

datatype event =
    Request http_call
  | Sleep nat
  | Random
  | FileExists string
  | FileSize string
  | FileRead string
  | FileWrite string

text \<open>
  \<open>clock\<close> is \<^verbatim>\<open>time.time()\<close> in milliseconds, \<open>ticks\<close> the number of interactions with
  the environment so far, \<open>files\<close> the regular files by path, \<open>trace\<close> the operations
  performed, oldest first.
\<close>

record world =
  clock :: nat
  ticks :: nat
  files :: "string \<Rightarrow> string option"
  trace :: "event list"

definition logged :: "event \<Rightarrow> world \<Rightarrow> world" where
  "logged ev w = w\<lparr>trace := trace w @ [ev]\<rparr>"

text \<open>One interaction that takes \<open>ms\<close> milliseconds.\<close>

definition advance :: "env \<Rightarrow> nat \<Rightarrow> world \<Rightarrow> world" where
  "advance E ms w =
     w\<lparr>clock := clock w + ms, ticks := Suc (ticks w), files := outside E (ticks w) (files w)\<rparr>"

definition http :: "env \<Rightarrow> http_call \<Rightarrow> world \<Rightarrow> (pyexc + response) \<times> world" where
  "http E call w =
     (let (r, ms) = net E (ticks w) call in (r, advance E ms (logged (Request call) w)))"

text \<open>\<^verbatim>\<open>time.sleep(ms / 1000)\<close>: at least the time asked for.\<close>

definition sleep :: "env \<Rightarrow> nat \<Rightarrow> world \<Rightarrow> world" where
  "sleep E ms w = advance E (ms + oversleep E (ticks w)) (logged (Sleep ms) w)"

text \<open>\<^verbatim>\<open>random.randint(a, b)\<close>: some integer from \<open>a\<close> to \<open>b\<close>, both included.\<close>

definition randint :: "env \<Rightarrow> int \<Rightarrow> int \<Rightarrow> world \<Rightarrow> int \<times> world" where
  "randint E a b w =
     (a + int (entropy E (ticks w)) mod (b - a + 1), advance E 0 (logged Random w))"

text \<open>\<^verbatim>\<open>os.path.exists\<close>, \<^verbatim>\<open>os.path.getsize\<close>, reading the first bytes, writing a file.\<close>

definition path_exists :: "string \<Rightarrow> world \<Rightarrow> bool \<times> world" where
  "path_exists p w = (files w p \<noteq> None, logged (FileExists p) w)"

definition getsize :: "string \<Rightarrow> world \<Rightarrow> nat \<times> world" where
  "getsize p w = (case files w p of Some b \<Rightarrow> length b | None \<Rightarrow> 0, logged (FileSize p) w)"

definition read_head :: "string \<Rightarrow> nat \<Rightarrow> world \<Rightarrow> string \<times> world" where
  "read_head p n w = (case files w p of Some b \<Rightarrow> take n b | None \<Rightarrow> [], logged (FileRead p) w)"

definition write_file :: "string \<Rightarrow> string \<Rightarrow> world \<Rightarrow> world" where
  "write_file p b w = logged (FileWrite p) (w\<lparr>files := (files w)(p \<mapsto> b)\<rparr>)"

definition read_file :: "string \<Rightarrow> world \<Rightarrow> string \<times> world" where
  "read_file p w = (case files w p of Some b \<Rightarrow> b | None \<Rightarrow> [], logged (FileRead p) w)"

text \<open>
  \<open>getsize\<close>, \<open>read_head\<close> and \<open>read_file\<close> are only called after \<open>path_exists\<close> said
  yes for the same path, with no interaction in between: the case of a missing file is
  never reached.
\<close>

subsection \<open>Asset validation\<close>

text \<open>\<^verbatim>\<open>h[a:b]\<close> on bytes.\<close>

definition slice :: "string \<Rightarrow> nat \<Rightarrow> nat \<Rightarrow> string" where
  "slice h a b = take (b - a) (drop a h)"

definition startswith :: "string \<Rightarrow> string \<Rightarrow> bool" where
  "startswith h p = (take (length p) h = p)"

text \<open>
  \<^verbatim>\<open>imghdr.what\<close> of the standard library (Python 3.11), applied to the first 32 bytes of
  the file: the tests for jpeg, png, gif, tiff, rgb, pbm, pgm, ppm, rast, xbm, bmp, webp
  and exr, in this order.
\<close>

definition test_pnm :: "string \<Rightarrow> string \<Rightarrow> bool" where
  "test_pnm kinds h =
     (3 \<le> length h \<and> h ! 0 = CHR ''P'' \<and> h ! 1 \<in> set kinds
      \<and> h ! 2 \<in> {CHR '' '', CHR 0x09, CHR 0x0A, CHR 0x0D})"

definition imghdr_what :: "string \<Rightarrow> string option" where
  "imghdr_what h =
     (if slice h 6 10 = ''JFIF'' \<or> slice h 6 10 = ''Exif'' then Some ''jpeg''
      else if slice h 0 4 = [CHR 0xFF, CHR 0xD8, CHR 0xFF, CHR 0xDB] then Some ''jpeg''
      else if startswith h [CHR 0x89, CHR ''P'', CHR ''N'', CHR ''G'', CHR 0x0D, CHR 0x0A, CHR 0x1A, CHR 0x0A]
        then Some ''png''
      else if slice h 0 6 = ''GIF87a'' \<or> slice h 0 6 = ''GIF89a'' then Some ''gif''
      else if slice h 0 2 = ''MM'' \<or> slice h 0 2 = ''II'' then Some ''tiff''
      else if startswith h [CHR 0x01, CHR 0xDA] then Some ''rgb''
      else if test_pnm ''14'' h then Some ''pbm''
      else if test_pnm ''25'' h then Some ''pgm''
      else if test_pnm ''36'' h then Some ''ppm''
      else if startswith h [CHR 0x59, CHR 0xA6, CHR 0x6A, CHR 0x95] then Some ''rast''
      else if startswith h ''#define '' then Some ''xbm''
      else if startswith h ''BM'' then Some ''bmp''
      else if startswith h ''RIFF'' \<and> slice h 8 12 = ''WEBP'' then Some ''webp''
      else if startswith h [CHR 0x76, CHR 0x2F, CHR 0x31, CHR 0x01] then Some ''exr''
      else None)"

text \<open>\<^verbatim>\<open>validate_image_file(file_path)\<close>, lines 24 to 49.\<close>

definition validate_image_file :: "string \<Rightarrow> world \<Rightarrow> (bool \<times> string) \<times> world" where
  "validate_image_file file_path w =
     (let (present, w1) = path_exists file_path w in
      if \<not> present then ((False, ''File does not exist''), w1)
      else
        let (file_size, w2) = getsize file_path w1 in
        if file_size < 100 then
          ((False, ''File too small ('' @ str_nat file_size @ '' bytes), likely an error response''), w2)
        else
          let (h, w3) = read_head file_path 32 w2 in
          (case imghdr_what h of
             None \<Rightarrow>
               let (header, w4) = read_head file_path 100 w3 in
               if occurs_in ''<!DOCTYPE'' header \<or> occurs_in ''<html'' header
                  \<or> occurs_in ''<?xml'' header
               then ((False, ''File contains HTML/XML (likely an error page)''), w4)
               else if occurs_in [CHR 0x22, CHR ''e'', CHR ''r'', CHR ''r'', CHR ''o'', CHR ''r'', CHR 0x22] header
                  \<or> occurs_in [CHR 0x22, CHR ''m'', CHR ''e'', CHR ''s'', CHR ''s'', CHR ''a'', CHR ''g'', CHR ''e'', CHR 0x22] header
               then ((False, ''File contains JSON error response''), w4)
               else ((False, ''File is not a valid image format''), w4)
           | Some img_type \<Rightarrow>
               ((True, ''Valid '' @ img_type @ '' image ('' @ str_nat file_size @ '' bytes)''), w3)))"

text \<open>\<^verbatim>\<open>bytes.hex()\<close>.\<close>

definition hex :: "string \<Rightarrow> string" where
  "hex b = concat (map (\<lambda>c. [hex_char (of_char c div 16), hex_char (of_char c mod 16)]) b)"

text \<open>\<^verbatim>\<open>validate_audio_file(file_path)\<close>, lines 52 to 93.\<close>

definition validate_audio_file :: "string \<Rightarrow> world \<Rightarrow> (bool \<times> string) \<times> world" where
  "validate_audio_file file_path w =
     (let (present, w1) = path_exists file_path w in
      if \<not> present then ((False, ''File does not exist''), w1)
      else
        let (file_size, w2) = getsize file_path w1 in
        if file_size < 100 then
          ((False, ''File too small ('' @ str_nat file_size @ '' bytes), likely an error response''), w2)
        else
          let (header, w3) = read_head file_path 12 w2 in
          if occurs_in ''<!DOCTYPE'' header \<or> occurs_in ''<html'' header
          then ((False, ''File contains HTML (likely an error page)''), w3)
          else if slice header 0 3 = ''ID3'' \<or> slice header 0 2 = [CHR 0xFF, CHR 0xFB]
                  \<or> slice header 0 2 = [CHR 0xFF, CHR 0xFA]
          then ((True, ''Valid MP3 audio ('' @ str_nat file_size @ '' bytes)''), w3)
          else if slice header 0 4 = ''RIFF'' \<and> slice header 8 12 = ''WAVE''
          then ((True, ''Valid WAV audio ('' @ str_nat file_size @ '' bytes)''), w3)
          else if slice header 0 4 = ''OggS''
          then ((True, ''Valid OGG audio ('' @ str_nat file_size @ '' bytes)''), w3)
          else if slice header 4 8 = ''ftyp''
          then ((True, ''Valid M4A/AAC audio ('' @ str_nat file_size @ '' bytes)''), w3)
          else if 10000 < file_size
          then ((True, ''Assumed valid audio ('' @ str_nat file_size @ '' bytes)''), w3)
          else ((False, ''Unknown audio format (header: '' @ hex (slice header 0 8) @ '')''), w3))"

subsection \<open>Transfers\<close>

text \<open>\<^verbatim>\<open>upload_file(file_path, pre_signed_url)\<close>, lines 96 to 121.\<close>

definition upload_file :: "env \<Rightarrow> string \<Rightarrow> json \<Rightarrow> world \<Rightarrow> (bool \<times> string) \<times> world" where
  "upload_file E file_path pre_signed_url w =
     (let (present, w1) = path_exists file_path w in
      if \<not> present then ((False, ''File not found: '' @ file_path), w1)
      else
        let (file_size, w2) = getsize file_path w1;
            (body, w3) = read_file file_path w2
        in (case http E (HttpPut pre_signed_url body) w3 of
              (Inl e, w4) \<Rightarrow>
                if is_timeout e then ((False, ''Upload timed out after 300 seconds''), w4)
                else ((False, ''Upload exception: '' @ exc_str e), w4)
            | (Inr r, w4) \<Rightarrow>
                if status_code r = 200 then ((True, ''Upload successful''), w4)
                else ((False, ''Upload failed with status '' @ str_int (status_code r) @ '': ''
                         @ take 500 (body_text r)), w4)))"

text \<open>\<^verbatim>\<open>str.lower()\<close> on the code points below 256.\<close>

definition lower_char :: "char \<Rightarrow> char" where
  "lower_char c = (let n = (of_char c :: nat) in
     if (65 \<le> n \<and> n \<le> 90) \<or> (192 \<le> n \<and> n \<le> 222 \<and> n \<noteq> 215) then char_of (n + 32) else c)"

definition lower :: "string \<Rightarrow> string" where
  "lower s = map lower_char s"

text \<open>\<^verbatim>\<open>download_file(url, save_name)\<close>, lines 124 to 167.\<close>

definition download_file :: "env \<Rightarrow> json \<Rightarrow> string \<Rightarrow> world \<Rightarrow> (bool \<times> string) \<times> world" where
  "download_file E url save_name w =
     (case py_prefix url 100 of
        Inl e \<Rightarrow> ((False, ''Download exception: '' @ exc_str e), w)
      | Inr shown \<Rightarrow>
          (case http E (HttpGet url) w of
             (Inl e, w1) \<Rightarrow>
               if is_timeout e then ((False, ''Download timed out after 120 seconds''), w1)
               else if is_request_exception e
               then ((False, ''Download request error: '' @ exc_str e), w1)
               else ((False, ''Download exception: '' @ exc_str e), w1)
           | (Inr r, w1) \<Rightarrow>
               if status_code r \<noteq> 200
               then ((False, ''Download failed with HTTP '' @ str_int (status_code r) @ '': ''
                        @ take 200 (body_text r)), w1)
               else
                 let ctype = (case content_type r of Some t \<Rightarrow> t | None \<Rightarrow> []);
                     error_content = take 500 (utf8_decode E (content r))
                 in
                 if (occurs_in ''text/html'' ctype \<or> occurs_in ''application/json'' ctype)
                    \<and> length (content r) < 10000
                    \<and> (occurs_in ''error'' (lower error_content)
                        \<or> occurs_in ''denied'' (lower error_content))
                 then ((False, ''URL returned error page: '' @ take 200 error_content), w1)
                 else if length (content r) < 100
                 then ((False, ''Downloaded content too small ('' @ str_nat (length (content r))
                          @ '' bytes)''), w1)
                 else
                   let save_path = ''input/'' @ save_name
                   in ((True, save_path), write_file save_path (content r) w1)))"

subsection \<open>Seed and reachability\<close>

text \<open>\<^verbatim>\<open>generate_random_seed()\<close>, lines 170 to 172.\<close>

definition generate_random_seed :: "env \<Rightarrow> world \<Rightarrow> int \<times> world" where
  "generate_random_seed E w = randint E (10 ^ 15) (10 ^ 16 - 1) w"

text \<open>
  \<^verbatim>\<open>check_server(url, retries=50, delay=500)\<close>, lines 175 to 188: \<open>retries\<close> counts the
  attempts left; an exception that is not a \<^verbatim>\<open>RequestException\<close> leaves the function.
\<close>

fun check_server :: "env \<Rightarrow> string \<Rightarrow> nat \<Rightarrow> nat \<Rightarrow> world \<Rightarrow> (pyexc + bool) \<times> world" where
  "check_server E url 0 delay w = (Inr False, w)"
| "check_server E url (Suc retries) delay w =
     (case http E (HttpGet (JStr url)) w of
        (Inl e, w1) \<Rightarrow>
          if is_request_exception e then check_server E url retries delay (sleep E delay w1)
          else (Inl e, w1)
      | (Inr r, w1) \<Rightarrow>
          if status_code r = 200 then (Inr True, w1)
          else check_server E url retries delay (sleep E delay w1))"

subsection \<open>Polling the engine\<close>

text \<open>
  The loop over the messages of an error status, lines 234 to 240: one entry
  \<^verbatim>\<open>node_type: exception_message\<close> for every message that is a list of at least two
  elements whose first is \<^verbatim>\<open>'execution_error'\<close>.
\<close>

fun error_details :: "env \<Rightarrow> json list \<Rightarrow> pyexc + string list" where
  "error_details E [] = Inr []"
| "error_details E (msg # rest) =
     (case msg of
        JList m \<Rightarrow>
          if 2 \<le> length m \<and> py_eq (m ! 0) (JStr ''execution_error'') then
            bindE (py_get (m ! 1) ''node_type'' (JStr ''Unknown'')) (\<lambda>node_type.
            bindE (py_get (m ! 1) ''exception_message'' (JStr ''Unknown error'')) (\<lambda>exception_message.
            bindE (error_details E rest) (\<lambda>more.
              Inr ((py_str E node_type @ '': '' @ py_str E exception_message) # more))))
          else error_details E rest
      | _ \<Rightarrow> error_details E rest)"

text \<open>
  The check for execution errors, lines 227 to 244: the failure to return when the
  status of the entry says \<^verbatim>\<open>error\<close>, None when the function goes on to the outputs.
\<close>

definition check_status :: "env \<Rightarrow> json \<Rightarrow> pyexc + (bool \<times> json) option" where
  "check_status E prompt_result =
     bindE (py_in (JStr ''status'') prompt_result) (\<lambda>has_status.
       if \<not> has_status then Inr None
       else
         bindE (py_getitem E prompt_result (JStr ''status'')) (\<lambda>status.
         bindE (py_get status ''status_str'' JNull) (\<lambda>status_str.
           if \<not> py_eq status_str (JStr ''error'') then Inr None
           else
             bindE (py_get status ''messages'' (JList [])) (\<lambda>messages.
             bindE (py_iter messages) (\<lambda>msgs.
             bindE (error_details E msgs) (\<lambda>details.
               if details \<noteq> [] then
                 Inr (Some (False, JStr (''Workflow execution error: '' @ join ''; '' details)))
               else
                 Inr (Some (False, JStr ''Workflow execution failed with unknown error''))))))))"

text \<open>\<^verbatim>\<open>list(outputs.keys())\<close>.\<close>

fun py_keys :: "json \<Rightarrow> pyexc + json" where
  "py_keys (JDict kvs) = Inr (JList (map (\<lambda>kv. JStr (fst kv)) kvs))"
| "py_keys c = Inl (PyExc AttributeError (repr_str (type_name c) @ '' object has no attribute '' @ repr_str ''keys''))"

text \<open>The check for outputs, lines 246 to 262.\<close>

definition check_outputs :: "env \<Rightarrow> int \<Rightarrow> json \<Rightarrow> pyexc + (bool \<times> json)" where
  "check_outputs E node_id prompt_result =
     bindE (py_get prompt_result ''outputs'' (JDict [])) (\<lambda>outputs.
     bindE (py_get outputs (str_int node_id) (JDict [])) (\<lambda>node_output.
     bindE (py_in (JStr ''gifs'') node_output) (\<lambda>has_gifs.
     bindE (if has_gifs
            then bindE (py_getitem E node_output (JStr ''gifs'')) (\<lambda>gifs.
                 bindE (py_len gifs) (\<lambda>n. Inr (0 < n)))
            else Inr False) (\<lambda>ready.
       if ready then
         bindE (py_getitem E node_output (JStr ''gifs'')) (\<lambda>gifs.
         bindE (py_getitem E gifs (JInt 0)) (\<lambda>first.
         bindE (py_getitem E first (JStr ''filename'')) (\<lambda>filename.
           Inr (True, filename))))
       else if \<not> py_bool outputs then
         Inr (False, JStr ''Workflow completed but produced no outputs'')
       else
         bindE (py_keys outputs) (\<lambda>available_nodes.
           Inr (False, JStr (''Node '' @ str_int node_id
                  @ '' has no output. Available outputs from nodes: ''
                  @ py_repr E available_nodes)))))))"

text \<open>
  What one look at the history does, lines 224 to 262: None when the correlation id is
  not in it (the loop sleeps and goes on), the pair to return otherwise.
\<close>

definition check_history :: "env \<Rightarrow> json \<Rightarrow> int \<Rightarrow> json \<Rightarrow> pyexc + (bool \<times> json) option" where
  "check_history E prompt_id node_id history =
     bindE (py_in prompt_id history) (\<lambda>found.
       if \<not> found then Inr None
       else
         bindE (py_getitem E history prompt_id) (\<lambda>prompt_result.
         bindE (check_status E prompt_result) (\<lambda>failed.
           case failed of
             Some r \<Rightarrow> Inr (Some r)
           | None \<Rightarrow> bindE (check_outputs E node_id prompt_result) (\<lambda>r. Inr (Some r)))))"

text \<open>
  The queue request, lines 205 to 214. It only feeds a log line, printed when the whole
  seconds since the start are a multiple of 30; the line takes the lengths of both
  lists.
\<close>

definition poll_queue :: "env \<Rightarrow> string \<Rightarrow> nat \<Rightarrow> world \<Rightarrow> (pyexc + unit) \<times> world" where
  "poll_queue E url start_time w =
     (case http E (HttpGet (JStr (url @ ''/queue''))) w of
        (Inl e, w1) \<Rightarrow> (Inl e, w1)
      | (Inr r, w1) \<Rightarrow>
          if status_code r = 200 then
            (case json_body r of
               Inl e \<Rightarrow> (Inl e, w1)
             | Inr queue_data \<Rightarrow>
                 (bindE (py_get queue_data ''queue_running'' (JList [])) (\<lambda>running.
                  bindE (py_get queue_data ''queue_pending'' (JList [])) (\<lambda>pending.
                    if ((clock w1 - start_time) div 1000) mod 30 = 0 then
                      bindE (py_len running) (\<lambda>a. bindE (py_len pending) (\<lambda>b. Inr ()))
                    else Inr ())), w1))
          else (Inr (), w1))"

text \<open>
  The body of the \<^verbatim>\<open>try\<close>, lines 204 to 264: an exception, the pair to return, or None
  after the sleep of two seconds (the \<^verbatim>\<open>continue\<close> of line 220 and the end of the body).
\<close>

definition poll_attempt ::
  "env \<Rightarrow> string \<Rightarrow> json \<Rightarrow> int \<Rightarrow> nat \<Rightarrow> world \<Rightarrow> (pyexc + (bool \<times> json) option) \<times> world" where
  "poll_attempt E url prompt_id node_id start_time w =
     (case poll_queue E url start_time w of
        (Inl e, w1) \<Rightarrow> (Inl e, w1)
      | (Inr u, w1) \<Rightarrow>
          (case http E (HttpGet (JStr (url @ ''/history''))) w1 of
             (Inl e, w2) \<Rightarrow> (Inl e, w2)
           | (Inr r, w2) \<Rightarrow>
               if status_code r \<noteq> 200 then (Inr None, sleep E 2000 w2)
               else
                 (case json_body r of
                    Inl e \<Rightarrow> (Inl e, w2)
                  | Inr history \<Rightarrow>
                      (case check_history E prompt_id node_id history of
                         Inl e \<Rightarrow> (Inl e, w2)
                       | Inr (Some res) \<Rightarrow> (Inr (Some res), w2)
                       | Inr None \<Rightarrow> (Inr None, sleep E 2000 w2)))))"

text \<open>
  One pass through the loop with its two handlers, lines 203 to 270: a
  \<^verbatim>\<open>RequestException\<close> sleeps five seconds and goes on, any other exception returns.
\<close>

definition poll_pass ::
  "env \<Rightarrow> string \<Rightarrow> json \<Rightarrow> int \<Rightarrow> nat \<Rightarrow> world \<Rightarrow> (bool \<times> json) option \<times> world" where
  "poll_pass E url prompt_id node_id start_time w =
     (case poll_attempt E url prompt_id node_id start_time w of
        (Inr out, w1) \<Rightarrow> (out, w1)
      | (Inl e, w1) \<Rightarrow>
          if is_request_exception e then (None, sleep E 5000 w1)
          else (Some (False, JStr (''Poll exception: '' @ exc_str e)), w1))"

lemma clock_logged: "clock (logged ev w) = clock w"
  by (simp add: logged_def)

lemma clock_http: "http E call w = (r, w1) \<Longrightarrow> clock w \<le> clock w1"
  by (auto simp: http_def advance_def logged_def split: prod.splits)

lemma clock_sleep: "clock w + ms \<le> clock (sleep E ms w)"
  by (simp add: sleep_def advance_def logged_def)

lemma clock_poll_queue: "poll_queue E url start w = (r, w1) \<Longrightarrow> clock w \<le> clock w1"
  by (auto simp: poll_queue_def split: prod.splits sum.splits if_splits dest: clock_http)

lemma clock_poll_attempt:
  assumes "poll_attempt E url pid nid start w = (r, w1)"
  shows "clock w \<le> clock w1" and "r = Inr None \<Longrightarrow> clock w + 2000 \<le> clock w1"
proof -
  obtain q wq where q: "poll_queue E url start w = (q, wq)"
    by (cases "poll_queue E url start w")
  have c1: "clock w \<le> clock wq"
    using q by (rule clock_poll_queue)
  obtain h wh where h: "http E (HttpGet (JStr (url @ ''/history''))) wq = (h, wh)"
    by (cases "http E (HttpGet (JStr (url @ ''/history''))) wq")
  have c2: "clock wq \<le> clock wh"
    using h by (rule clock_http)
  have c3: "clock wh + 2000 \<le> clock (sleep E 2000 wh)"
    by (rule clock_sleep)
  show "clock w \<le> clock w1"
    using assms q h c1 c2 c3
    by (auto simp: poll_attempt_def split: sum.splits if_splits option.splits)
  show "r = Inr None \<Longrightarrow> clock w + 2000 \<le> clock w1"
    using assms q h c1 c2 c3
    by (auto simp: poll_attempt_def split: sum.splits if_splits option.splits)
qed

lemma clock_poll_pass:
  assumes "poll_pass E url pid nid start w = (None, w1)"
  shows "clock w + 2000 \<le> clock w1"
proof -
  obtain a wa where a: "poll_attempt E url pid nid start w = (a, wa)"
    by (cases "poll_attempt E url pid nid start w")
  have c1: "clock w \<le> clock wa" and c2: "a = Inr None \<Longrightarrow> clock w + 2000 \<le> clock wa"
    using clock_poll_attempt [OF a] by auto
  have c3: "clock wa + 5000 \<le> clock (sleep E 5000 wa)"
    by (rule clock_sleep)
  show ?thesis
    using assms a c1 c2 c3
    by (auto simp: poll_pass_def split: sum.splits if_splits)
qed

text \<open>
  \<^verbatim>\<open>poll_result(url, prompt_id, node_id, timeout=600)\<close>, lines 191 to 272. The loop
  runs while less than \<open>timeout\<close> seconds have passed since \<open>start_time\<close>; it ends because
  every pass that does not return sleeps.
\<close>

function poll_loop ::
  "env \<Rightarrow> string \<Rightarrow> json \<Rightarrow> int \<Rightarrow> nat \<Rightarrow> nat \<Rightarrow> world \<Rightarrow> (bool \<times> json) \<times> world" where
  "poll_loop E url prompt_id node_id timeout start_time w =
     (if int (clock w) - int start_time < int timeout * 1000 then
        (case poll_pass E url prompt_id node_id start_time w of
           (Some res, w1) \<Rightarrow> (res, w1)
         | (None, w1) \<Rightarrow> poll_loop E url prompt_id node_id timeout start_time w1)
      else ((False, JStr (''Workflow timed out after '' @ str_nat timeout @ '' seconds'')), w))"
  by pat_completeness auto
termination
  apply (relation "measure (\<lambda>(E, url, prompt_id, node_id, timeout, start_time, w).
          nat (int start_time + int timeout * 1000 - int (clock w)))")
   apply simp
  apply (auto dest!: clock_poll_pass [OF sym])
  done

declare poll_loop.simps [simp del]

definition poll_result ::
  "env \<Rightarrow> string \<Rightarrow> json \<Rightarrow> int \<Rightarrow> nat \<Rightarrow> world \<Rightarrow> (bool \<times> json) \<times> world" where
  "poll_result E url prompt_id node_id timeout w =
     poll_loop E url prompt_id node_id timeout (clock w) w"

subsection \<open>The handler\<close>

record payload =
  payload_video_size :: nat
  payload_num_frames :: int
  payload_duration :: pyfloat

text \<open>The dict the handler returns.\<close>

record result =
  status :: int
  message :: string
  payload :: "payload option"

definition failure :: "int \<Rightarrow> string \<Rightarrow> result" where
  "failure code msg = \<lparr>status = code, message = msg, payload = None\<rparr>"

text \<open>
  Where a stage of the handler leaves it: it goes on with a value, it returns a result,
  or it raises.
\<close>

datatype 'a flow = Next 'a | Return result | Raise pyexc

definition and_then ::
  "'a flow \<times> world \<Rightarrow> ('a \<Rightarrow> world \<Rightarrow> 'b flow \<times> world) \<Rightarrow> 'b flow \<times> world" where
  "and_then m f =
     (case m of
        (Next v, w) \<Rightarrow> f v w
      | (Return r, w) \<Rightarrow> (Return r, w)
      | (Raise e, w) \<Rightarrow> (Raise e, w))"

definition raising :: "pyexc + 'a \<Rightarrow> world \<Rightarrow> 'a flow \<times> world" where
  "raising m w = (case m of Inl e \<Rightarrow> (Raise e, w) | Inr v \<Rightarrow> (Next v, w))"

definition required_params :: "string list" where
  "required_params =
     [''image_url'', ''audio_url'', ''video_upload_url'',
      ''audio_crop_start_time'', ''audio_crop_end_time'',
      ''positive_prompt'', ''negative_prompt'',
      ''aspect_ratio'', ''scale_to_length'', ''scale_to_side'',
      ''fps'', ''num_frames'',
      ''embeds_audio_scale'', ''embeds_cfg_audio_scale'',
      ''embeds_multi_audio_type'', ''embeds_normalize_loudness'',
      ''steps'', ''seed'', ''scheduler'']"

text \<open>\<^verbatim>\<open>[p for p in required_params if p not in job_input]\<close>, line 295.\<close>

fun missing_params :: "json \<Rightarrow> string list \<Rightarrow> pyexc + string list" where
  "missing_params job_input [] = Inr []"
| "missing_params job_input (p # ps) =
     bindE (py_in (JStr p) job_input) (\<lambda>present.
     bindE (missing_params job_input ps) (\<lambda>rest.
       Inr (if present then rest else p # rest)))"

text \<open>
  Lines 278 to 297: the input of the job (an empty dict when the job has none), its
  length for the log line, and the check of the required parameters.
\<close>

definition check_request :: "(string \<times> json) list \<Rightarrow> json flow" where
  "check_request job =
     (let job_input = (case map_of job ''input'' of Some v \<Rightarrow> v | None \<Rightarrow> JDict [])
      in case py_len job_input of
           Inl e \<Rightarrow> Raise e
         | Inr n \<Rightarrow>
             (case missing_params job_input required_params of
                Inl e \<Rightarrow> Raise e
              | Inr missing \<Rightarrow>
                  if missing \<noteq> [] then
                    Return (failure 400 (''Missing required parameters: '' @ join '', '' missing))
                  else Next job_input))"

text \<open>The local variables of lines 300 to 319.\<close>

record params =
  image_url :: json
  audio_url :: json
  video_upload_url :: json
  audio_crop_start_time :: json
  audio_crop_end_time :: json
  positive_prompt :: json
  negative_prompt :: json
  aspect_ratio :: json
  scale_to_side :: json
  scale_to_length :: int
  fps :: pyfloat
  num_frames :: int
  steps :: int
  seed :: int
  scheduler :: json
  embeds_audio_scale :: pyfloat
  embeds_cfg_audio_scale :: pyfloat
  embeds_multi_audio_type :: json
  embeds_normalize_loudness :: bool

text \<open>Lines 300 to 319, in the order of the source: the first failure is the one raised.\<close>

definition extract_params :: "env \<Rightarrow> json \<Rightarrow> pyexc + params" where
  "extract_params E job_input =
     bindE (py_getitem E job_input (JStr ''image_url'')) (\<lambda>v1.
     bindE (py_getitem E job_input (JStr ''audio_url'')) (\<lambda>v2.
     bindE (py_getitem E job_input (JStr ''video_upload_url'')) (\<lambda>v3.
     bindE (py_getitem E job_input (JStr ''audio_crop_start_time'')) (\<lambda>v4.
     bindE (py_getitem E job_input (JStr ''audio_crop_end_time'')) (\<lambda>v5.
     bindE (py_getitem E job_input (JStr ''positive_prompt'')) (\<lambda>v6.
     bindE (py_getitem E job_input (JStr ''negative_prompt'')) (\<lambda>v7.
     bindE (py_getitem E job_input (JStr ''aspect_ratio'')) (\<lambda>v8.
     bindE (py_getitem E job_input (JStr ''scale_to_side'')) (\<lambda>v9.
     bindE (bindE (py_getitem E job_input (JStr ''scale_to_length'')) py_int) (\<lambda>v10.
     bindE (bindE (py_getitem E job_input (JStr ''fps'')) (py_float E)) (\<lambda>v11.
     bindE (bindE (py_getitem E job_input (JStr ''num_frames'')) py_int) (\<lambda>v12.
     bindE (bindE (py_getitem E job_input (JStr ''steps'')) py_int) (\<lambda>v13.
     bindE (bindE (py_getitem E job_input (JStr ''seed'')) py_int) (\<lambda>v14.
     bindE (py_getitem E job_input (JStr ''scheduler'')) (\<lambda>v15.
     bindE (bindE (py_getitem E job_input (JStr ''embeds_audio_scale'')) (py_float E)) (\<lambda>v16.
     bindE (bindE (py_getitem E job_input (JStr ''embeds_cfg_audio_scale'')) (py_float E)) (\<lambda>v17.
     bindE (py_getitem E job_input (JStr ''embeds_multi_audio_type'')) (\<lambda>v18.
     bindE (py_getitem E job_input (JStr ''embeds_normalize_loudness'')) (\<lambda>v19.
       Inr \<lparr>image_url = v1, audio_url = v2, video_upload_url = v3,
            audio_crop_start_time = v4, audio_crop_end_time = v5,
            positive_prompt = v6, negative_prompt = v7,
            aspect_ratio = v8, scale_to_side = v9, scale_to_length = v10,
            fps = v11, num_frames = v12, steps = v13, seed = v14, scheduler = v15,
            embeds_audio_scale = v16, embeds_cfg_audio_scale = v17,
            embeds_multi_audio_type = v18,
            embeds_normalize_loudness = py_bool v19\<rparr>)))))))))))))))))))"

text \<open>Line 322: \<^verbatim>\<open>seed = generate_random_seed() if seed == -1 else seed\<close>.\<close>

definition resolve_seed :: "env \<Rightarrow> int \<Rightarrow> world \<Rightarrow> int \<times> world" where
  "resolve_seed E s w = (if s = - 1 then generate_random_seed E w else (s, w))"

text \<open>
  Lines 322 to 348: the seed, the duration for the log line (the division raises when
  fps is zero), then the image and the audio, each downloaded under a fresh name and
  validated. The stage goes on with the parameters (the seed resolved) and both names.
\<close>

definition stage_assets ::
  "env \<Rightarrow> params \<Rightarrow> world \<Rightarrow> (params \<times> string \<times> string) flow \<times> world" where
  "stage_assets E ps w =
     (let (seed1, w1) = resolve_seed E (seed ps) w in
      case py_truediv (num_frames ps) (fps ps) of
        Inl e \<Rightarrow> (Raise e, w1)
      | Inr duration \<Rightarrow>
          let (r1, w2) = generate_random_seed E w1;
              image_name = ''input_image_'' @ str_int r1 @ ''.png'';
              ((success, res), w3) = download_file E (image_url ps) image_name w2
          in
          if \<not> success then (Return (failure 500 (''Image download failed: '' @ res)), w3)
          else
            let ((valid, validation_msg), w4) = validate_image_file res w3 in
            if \<not> valid then
              (Return (failure 500 (''Image validation failed: '' @ validation_msg)), w4)
            else
              let (r2, w5) = generate_random_seed E w4;
                  audio_name = ''input_audio_'' @ str_int r2 @ ''.mp3'';
                  ((success2, res2), w6) = download_file E (audio_url ps) audio_name w5
              in
              if \<not> success2 then (Return (failure 500 (''Audio download failed: '' @ res2)), w6)
              else
                let ((valid2, validation_msg2), w7) = validate_audio_file res2 w6 in
                if \<not> valid2 then
                  (Return (failure 500 (''Audio validation failed: '' @ validation_msg2)), w7)
                else (Next (ps\<lparr>seed := seed1\<rparr>, image_name, audio_name), w7))"

text \<open>Lines 351 to 356: the template, read from its fixed path.\<close>

definition load_workflow :: "env \<Rightarrow> world \<Rightarrow> json flow \<times> world" where
  "load_workflow E w =
     (let workflow_path = ''multitalk_api.json'';
          (present, w1) = path_exists workflow_path w
      in
      if \<not> present then (Return (failure 500 (''Workflow file not found: '' @ workflow_path)), w1)
      else
        let (body, w2) = read_file workflow_path w1 in raising (json_loads E body) w2)"

text \<open>
  \<^verbatim>\<open>workflow[node]["inputs"][name] = value\<close>: both lookups raise on a missing key; the
  assignment changes the dict of inputs inside the workflow, written here as putting
  the changed dict back at its key, and the changed node back at its key.
\<close>

definition set_input :: "env \<Rightarrow> string \<Rightarrow> string \<Rightarrow> json \<Rightarrow> json \<Rightarrow> pyexc + json" where
  "set_input E node name v workflow =
     bindE (py_getitem E workflow (JStr node)) (\<lambda>n.
     bindE (py_getitem E n (JStr ''inputs'')) (\<lambda>inputs.
     bindE (py_setitem inputs name v) (\<lambda>inputs1.
     bindE (py_setitem n ''inputs'' inputs1) (\<lambda>n1.
       py_setitem workflow node n1))))"

fun set_inputs :: "env \<Rightarrow> (string \<times> string \<times> json) list \<Rightarrow> json \<Rightarrow> pyexc + json" where
  "set_inputs E [] workflow = Inr workflow"
| "set_inputs E ((node, name, v) # rest) workflow =
     bindE (set_input E node name v workflow) (set_inputs E rest)"

text \<open>The assignments of lines 359 to 382, in the order of the source.\<close>

definition workflow_slots :: "string \<Rightarrow> string \<Rightarrow> params \<Rightarrow> (string \<times> string \<times> json) list" where
  "workflow_slots image_name audio_name ps =
     [(''218'', ''image'', JStr image_name),
      (''219'', ''audio'', JStr audio_name),
      (''223'', ''start_time'', audio_crop_start_time ps),
      (''223'', ''end_time'', audio_crop_end_time ps),
      (''135'', ''positive_prompt'', positive_prompt ps),
      (''135'', ''negative_prompt'', negative_prompt ps),
      (''233'', ''aspect_ratio'', aspect_ratio ps),
      (''233'', ''scale_to_side'', scale_to_side ps),
      (''233'', ''scale_to_length'', JInt (scale_to_length ps)),
      (''224'', ''audio_scale'', JFloat (embeds_audio_scale ps)),
      (''224'', ''audio_cfg_scale'', JFloat (embeds_cfg_audio_scale ps)),
      (''224'', ''multi_audio_type'', embeds_multi_audio_type ps),
      (''224'', ''normalize_loudness'', JBool (embeds_normalize_loudness ps)),
      (''198'', ''seed'', JInt (seed ps)),
      (''198'', ''steps'', JInt (steps ps)),
      (''198'', ''scheduler'', scheduler ps),
      (''226'', ''value'', JFloat (fps ps)),
      (''228'', ''value'', JInt (num_frames ps))]"

definition bind_workflow :: "env \<Rightarrow> string \<Rightarrow> string \<Rightarrow> params \<Rightarrow> json \<Rightarrow> pyexc + json" where
  "bind_workflow E image_name audio_name ps workflow =
     set_inputs E (workflow_slots image_name audio_name ps) workflow"

definition comfy_url :: string where
  "comfy_url = ''http://127.0.0.1:8188''"

text \<open>Lines 387 to 409: the reachability check and the submission.\<close>

definition submit_workflow :: "env \<Rightarrow> json \<Rightarrow> world \<Rightarrow> json flow \<times> world" where
  "submit_workflow E workflow w =
     (case check_server E comfy_url 50 500 w of
        (Inl e, w1) \<Rightarrow> (Raise e, w1)
      | (Inr reachable, w1) \<Rightarrow>
          if \<not> reachable then (Return (failure 500 ''ComfyUI server not reachable''), w1)
          else
            (case http E (HttpPost (comfy_url @ ''/prompt'') (JDict [(''prompt'', workflow)])) w1 of
               (Inl e, w2) \<Rightarrow> (Raise e, w2)
             | (Inr r, w2) \<Rightarrow>
                 if status_code r \<noteq> 200 then
                   (Return (failure 500 (''Failed to submit workflow: HTTP '' @ str_int (status_code r))), w2)
                 else
                   (case json_body r of
                      Inl e \<Rightarrow> (Raise e, w2)
                    | Inr response_data \<Rightarrow>
                        (case py_in (JStr ''prompt_id'') response_data of
                           Inl e \<Rightarrow> (Raise e, w2)
                         | Inr has_id \<Rightarrow>
                             if \<not> has_id then
                               (case bindE (py_get response_data ''node_errors'' (JStr ''Unknown error''))
                                       (\<lambda>d. py_get response_data ''error'' d) of
                                  Inl e \<Rightarrow> (Raise e, w2)
                                | Inr error_info \<Rightarrow>
                                    (Return (failure 500 (''Workflow rejected: '' @ py_str E error_info)), w2))
                             else raising (py_getitem E response_data (JStr ''prompt_id'')) w2))))"

text \<open>Lines 278 to 409: everything before the polling.\<close>

definition handler_prepare ::
  "env \<Rightarrow> (string \<times> json) list \<Rightarrow> world \<Rightarrow> (params \<times> json) flow \<times> world" where
  "handler_prepare E job w =
     and_then (check_request job, w) (\<lambda>job_input w0.
     and_then (raising (extract_params E job_input) w0) (\<lambda>ps0 w1.
     and_then (stage_assets E ps0 w1) (\<lambda>(ps, image_name, audio_name) w2.
     and_then (load_workflow E w2) (\<lambda>workflow w3.
     and_then (raising (bind_workflow E image_name audio_name ps workflow) w3) (\<lambda>bound w4.
     and_then (submit_workflow E bound w4) (\<lambda>prompt_id w5.
       (Next (ps, prompt_id), w5)))))))"

text \<open>Lines 417 to 441: the output file, the upload, the success payload.\<close>

definition deliver :: "env \<Rightarrow> params \<Rightarrow> json \<Rightarrow> world \<Rightarrow> (pyexc + result) \<times> world" where
  "deliver E ps video_name w =
     (let video_path = ''output/'' @ py_str E video_name;
          (present, w1) = path_exists video_path w
      in
      if \<not> present then (Inr (failure 500 (''Output video not found at '' @ video_path)), w1)
      else
        let (video_size, w2) = getsize video_path w1;
            ((success, res), w3) = upload_file E video_path (video_upload_url ps) w2
        in
        if \<not> success then (Inr (failure 500 (''Video upload failed: '' @ res)), w3)
        else
          (case py_truediv (num_frames ps) (fps ps) of
             Inl e \<Rightarrow> (Inl e, w3)
           | Inr duration \<Rightarrow>
               (Inr \<lparr>status = 200, message = ''Video created successfully'',
                     payload = Some \<lparr>payload_video_size = video_size,
                                      payload_num_frames = num_frames ps,
                                      payload_duration = duration\<rparr>\<rparr>, w3)))"

text \<open>The body of the \<^verbatim>\<open>try\<close> of the handler, lines 278 to 441.\<close>

definition handler_body ::
  "env \<Rightarrow> (string \<times> json) list \<Rightarrow> world \<Rightarrow> (pyexc + result) \<times> world" where
  "handler_body E job w =
     (case handler_prepare E job w of
        (Raise e, w1) \<Rightarrow> (Inl e, w1)
      | (Return r, w1) \<Rightarrow> (Inr r, w1)
      | (Next (ps, prompt_id), w1) \<Rightarrow>
          let ((success, res), w2) = poll_result E comfy_url prompt_id 221 600 w1 in
          if \<not> success then (Inr (failure 500 (''Workflow failed: '' @ py_str E res)), w2)
          else deliver E ps res w2)"

text \<open>
  \<^verbatim>\<open>handler(job)\<close>, lines 275 to 447: any exception of the body becomes a result of
  status 500.
\<close>

definition handler :: "env \<Rightarrow> (string \<times> json) list \<Rightarrow> world \<Rightarrow> result \<times> world" where
  "handler E job w =
     (case handler_body E job w of
        (Inr r, w1) \<Rightarrow> (r, w1)
      | (Inl e, w1) \<Rightarrow> (failure 500 (''Handler exception: '' @ exc_str e), w1))"

subsection \<open>Looking at a pass of the polling loop\<close>

text \<open>
  The history a pass of the loop gets to look at, with the world after the history
  request: None when the queue request or its log line raised, when the history request
  raised or did not answer 200, or when its body is not JSON.
\<close>

definition history_seen :: "env \<Rightarrow> string \<Rightarrow> nat \<Rightarrow> world \<Rightarrow> (json \<times> world) option" where
  "history_seen E url start_time w =
     (case poll_queue E url start_time w of
        (Inl e, w1) \<Rightarrow> None
      | (Inr u, w1) \<Rightarrow>
          (case http E (HttpGet (JStr (url @ ''/history''))) w1 of
             (Inl e, w2) \<Rightarrow> None
           | (Inr r, w2) \<Rightarrow>
               if status_code r \<noteq> 200 then None
               else (case json_body r of Inl e \<Rightarrow> None | Inr history \<Rightarrow> Some (history, w2))))"


text \<open>A computation that raises no \<^verbatim>\<open>RequestException\<close>.\<close>

definition builtin :: "pyexc + 'a \<Rightarrow> bool" where
  "builtin m = (case m of Inl e \<Rightarrow> \<not> is_request_exception e | Inr v \<Rightarrow> True)"


subsection \<open>An engine that never lists the id\<close>

text \<open>
  \<open>has_len v\<close>: \<^verbatim>\<open>len(v)\<close> does not raise. An answer to the queue request is quiet when
  the loop goes on after it: the request raised a \<^verbatim>\<open>RequestException\<close>, the status is
  not 200, \<^verbatim>\<open>.json()\<close> raised a \<^verbatim>\<open>RequestException\<close>, or the body is a JSON object
  whose two lists, where present, have a length. An answer to the history request is
  quiet for an id in the same way, the JSON object being one without the id as a key.
  The engine is silent from step \<open>n0\<close> on when every answer it gives from then on is.
\<close>

definition has_len :: "json \<Rightarrow> bool" where
  "has_len v = (case py_len v of Inr n \<Rightarrow> True | Inl e \<Rightarrow> False)"

definition queue_quiet :: "pyexc + response \<Rightarrow> bool" where
  "queue_quiet a =
     (case a of
        Inl e \<Rightarrow> is_request_exception e
      | Inr r \<Rightarrow>
          status_code r \<noteq> 200 \<or>
          (case json_body r of
             Inl e \<Rightarrow> is_request_exception e
           | Inr (JDict d) \<Rightarrow>
               (case map_of d ''queue_running'' of None \<Rightarrow> True | Some v \<Rightarrow> has_len v)
               \<and> (case map_of d ''queue_pending'' of None \<Rightarrow> True | Some v \<Rightarrow> has_len v)
           | Inr _ \<Rightarrow> False))"

definition history_quiet :: "string \<Rightarrow> pyexc + response \<Rightarrow> bool" where
  "history_quiet pid a =
     (case a of
        Inl e \<Rightarrow> is_request_exception e
      | Inr r \<Rightarrow>
          status_code r \<noteq> 200 \<or>
          (case json_body r of
             Inl e \<Rightarrow> is_request_exception e
           | Inr (JDict h) \<Rightarrow> pid \<notin> fst ` set h
           | Inr _ \<Rightarrow> False))"

definition engine_silent :: "env \<Rightarrow> string \<Rightarrow> string \<Rightarrow> nat \<Rightarrow> bool" where
  "engine_silent E url pid n0 =
     (\<forall>n\<ge>n0. queue_quiet (fst (net E n (HttpGet (JStr (url @ ''/queue'')))))
        \<and> history_quiet pid (fst (net E n (HttpGet (JStr (url @ ''/history''))))))"

text \<open>No answer to a history request, at any step, lists the id.\<close>

definition history_never_lists :: "env \<Rightarrow> string \<Rightarrow> string \<Rightarrow> bool" where
  "history_never_lists E url pid =
     (\<forall>n. history_quiet pid (fst (net E n (HttpGet (JStr (url @ ''/history''))))))"

subsection \<open>Looking into a workflow\<close>

text \<open>
  The node identifiers of a workflow in their order, the node at an identifier, the
  names of its fields, one field, and one input:
  \<^verbatim>\<open>workflow[n]["inputs"][k]\<close>. \<open>slot_keys\<close> are the pairs of node and input name
  that a list of assignments writes.
\<close>

definition node_ids :: "json \<Rightarrow> string list" where
  "node_ids workflow = (case workflow of JDict ns \<Rightarrow> map fst ns | _ \<Rightarrow> [])"

definition node_of :: "json \<Rightarrow> string \<Rightarrow> json option" where
  "node_of workflow n = (case workflow of JDict ns \<Rightarrow> map_of ns n | _ \<Rightarrow> None)"

definition field_names :: "json \<Rightarrow> string \<Rightarrow> string list" where
  "field_names workflow n = (case node_of workflow n of Some (JDict fs) \<Rightarrow> map fst fs | _ \<Rightarrow> [])"

definition node_field :: "json \<Rightarrow> string \<Rightarrow> string \<Rightarrow> json option" where
  "node_field workflow n f = (case node_of workflow n of Some (JDict fs) \<Rightarrow> map_of fs f | _ \<Rightarrow> None)"

definition node_input :: "json \<Rightarrow> string \<Rightarrow> string \<Rightarrow> json option" where
  "node_input workflow n k = (case node_field workflow n ''inputs'' of Some (JDict ins) \<Rightarrow> map_of ins k | _ \<Rightarrow> None)"

definition slot_keys :: "(string \<times> string \<times> json) list \<Rightarrow> (string \<times> string) list" where
  "slot_keys slots = map (\<lambda>s. (fst s, fst (snd s))) slots"


section \<open>A sample run\<close>

text \<open>
  A concrete environment, world and job: the downloads answer with a JPEG and an MP3
  header, the engine is reachable, accepts the workflow under the id \<^verbatim>\<open>p-1\<close> and never
  lists it in its history. The theorems below are applied to it.
\<close>

definition sample_image :: string where
  "sample_image = [CHR 0xFF, CHR 0xD8, CHR 0xFF, CHR 0xE0, CHR 0x00, CHR 0x10] @ ''JFIF'' @ replicate 200 (CHR 0x00)"

definition sample_audio :: string where
  "sample_audio = ''ID3'' @ replicate 300 (CHR 0x00)"

definition sample_response :: "string \<Rightarrow> json \<Rightarrow> response" where
  "sample_response body j =
     \<lparr>status_code = 200, body_text = [], content = body, content_type = None, json_body = Inr j\<rparr>"

definition sample_net :: "nat \<Rightarrow> http_call \<Rightarrow> (pyexc + response) \<times> nat" where
  "sample_net n call =
     (case call of
        HttpGet u \<Rightarrow>
          if u = JStr ''https://cdn.example/face.jpg'' then (Inr (sample_response sample_image JNull), 40)
          else if u = JStr ''https://cdn.example/voice.mp3'' then (Inr (sample_response sample_audio JNull), 30)
          else if u = JStr ''http://127.0.0.1:8188'' then (Inr (sample_response [] JNull), 5)
          else if u = JStr ''http://127.0.0.1:8188/queue''
            then (Inr (sample_response [] (JDict [(''queue_running'', JList []), (''queue_pending'', JList [])])), 5)
          else if u = JStr ''http://127.0.0.1:8188/history'' then (Inr (sample_response [] (JDict [])), 5)
          else (Inl (PyExc RequestException ''connection refused''), 1)
      | HttpPost u b \<Rightarrow> (Inr (sample_response [] (JDict [(''prompt_id'', JStr ''p-1'')])), 20)
      | HttpPut u b \<Rightarrow> (Inr (sample_response [] JNull), 50))"

definition sample_node :: "string \<Rightarrow> (string \<times> json) list \<Rightarrow> json" where
  "sample_node cls ins = JDict [(''class_type'', JStr cls), (''inputs'', JDict ins)]"

definition sample_template :: json where
  "sample_template = JDict
     [(''135'', sample_node ''Prompts'' [(''positive_prompt'', JStr ''''), (''negative_prompt'', JStr '''')]),
      (''198'', sample_node ''Sampler'' [(''seed'', JInt 1), (''steps'', JInt 4), (''scheduler'', JStr ''unipc''), (''model'', JList [JStr ''120'', JInt 0])]),
      (''218'', sample_node ''LoadImage'' [(''image'', JStr ''x.png'')]),
      (''219'', sample_node ''LoadAudio'' [(''audio'', JStr ''x.mp3'')]),
      (''221'', sample_node ''VideoCombine'' [(''images'', JList [JStr ''198'', JInt 0])]),
      (''223'', sample_node ''AudioCrop'' [(''start_time'', JStr ''0:00''), (''end_time'', JStr ''0:05'')]),
      (''224'', sample_node ''Embeds'' [(''audio_scale'', JInt 1)]),
      (''226'', sample_node ''Float'' [(''value'', JInt 25)]),
      (''228'', sample_node ''Int'' [(''value'', JInt 81)]),
      (''233'', sample_node ''Resize'' [(''aspect_ratio'', JStr ''1:1'')])]"

definition sample_env :: env where
  "sample_env =
     \<lparr>net = sample_net, oversleep = (\<lambda>n. 0), entropy = (\<lambda>n. 3),
      outside = (\<lambda>n fs. fs), float_of_str = (\<lambda>s. None), float_repr = (\<lambda>f. ''0.0''),
      json_loads = (\<lambda>b. Inr sample_template), utf8_decode = (\<lambda>b. b)\<rparr>"

definition sample_world :: world where
  "sample_world = \<lparr>clock = 0, ticks = 0, files = [''multitalk_api.json'' \<mapsto> ''{}''], trace = []\<rparr>"

definition sample_input :: "(string \<times> json) list" where
  "sample_input =
     [(''image_url'', JStr ''https://cdn.example/face.jpg''),
      (''audio_url'', JStr ''https://cdn.example/voice.mp3''),
      (''video_upload_url'', JStr ''https://bucket.example/out.mp4''),
      (''audio_crop_start_time'', JStr ''0:00''),
      (''audio_crop_end_time'', JStr ''0:04''),
      (''positive_prompt'', JStr ''a person talking''),
      (''negative_prompt'', JStr ''blurry''),
      (''aspect_ratio'', JStr ''9:16''),
      (''scale_to_length'', JStr ''832''),
      (''scale_to_side'', JStr ''longest''),
      (''fps'', JInt 25),
      (''num_frames'', JInt 81),
      (''embeds_audio_scale'', JInt 1),
      (''embeds_cfg_audio_scale'', JInt 1),
      (''embeds_multi_audio_type'', JStr ''para''),
      (''embeds_normalize_loudness'', JBool True),
      (''steps'', JInt 4),
      (''seed'', JInt (- 1)),
      (''scheduler'', JStr ''unipc'')]"

definition sample_job :: "(string \<times> json) list" where
  "sample_job = [(''id'', JStr ''job-1''), (''input'', JDict sample_input)]"

definition sample_params :: params where
  "sample_params =
     \<lparr>image_url = JStr ''https://cdn.example/face.jpg'',
      audio_url = JStr ''https://cdn.example/voice.mp3'',
      video_upload_url = JStr ''https://bucket.example/out.mp4'',
      audio_crop_start_time = JStr ''0:00'',
      audio_crop_end_time = JStr ''0:04'',
      positive_prompt = JStr ''a person talking'',
      negative_prompt = JStr ''blurry'',
      aspect_ratio = JStr ''9:16'',
      scale_to_side = JStr ''longest'',
      scale_to_length = 832,
      fps = Finite 25,
      num_frames = 81,
      steps = 4,
      seed = - 1,
      scheduler = JStr ''unipc'',
      embeds_audio_scale = Finite 1,
      embeds_cfg_audio_scale = Finite 1,
      embeds_multi_audio_type = JStr ''para'',
      embeds_normalize_loudness = True\<rparr>"


text \<open>The sample job without its \<^verbatim>\<open>fps\<close> and \<^verbatim>\<open>seed\<close>.\<close>

definition sample_job_incomplete :: "(string \<times> json) list" where
  "sample_job_incomplete =
     [(''id'', JStr ''job-2''),
      (''input'', JDict (filter (\<lambda>kv. fst kv \<noteq> ''fps'' \<and> fst kv \<noteq> ''seed'') sample_input))]"

text \<open>The sample job with text where the number of frames should be, and with no fps.\<close>

definition sample_input_malformed :: "(string \<times> json) list" where
  "sample_input_malformed =
     map (\<lambda>kv. if fst kv = ''num_frames'' then (fst kv, JStr ''abc'') else kv) sample_input"

definition sample_job_malformed :: "(string \<times> json) list" where
  "sample_job_malformed = [(''id'', JStr ''job-3''), (''input'', JDict sample_input_malformed)]"

definition sample_input_null :: "(string \<times> json) list" where
  "sample_input_null =
     map (\<lambda>kv. if fst kv = ''fps'' then (fst kv, JNull) else kv) sample_input"

definition sample_job_null :: "(string \<times> json) list" where
  "sample_job_null = [(''id'', JStr ''job-4''), (''input'', JDict sample_input_null)]"

text \<open>
  The sample environment with a history of one's choice, and four histories for the
  id \<^verbatim>\<open>p-1\<close>: completed, failed, failed with outputs, and completed without the
  expected output.
\<close>

definition sample_env_with :: "json \<Rightarrow> env" where
  "sample_env_with history =
     sample_env\<lparr>net := (\<lambda>n call.
       if call = HttpGet (JStr ''http://127.0.0.1:8188/history'')
       then (Inr (sample_response [] history), 5)
       else sample_net n call)\<rparr>"

definition sample_artifact :: json where
  "sample_artifact =
     JDict [(''filename'', JStr ''result.mp4''), (''subfolder'', JStr []), (''type'', JStr ''output'')]"

definition sample_history_done :: json where
  "sample_history_done = JDict
     [(''p-1'', JDict
        [(''status'', JDict [(''status_str'', JStr ''success''), (''completed'', JBool True),
                             (''messages'', JList [])]),
         (''outputs'', JDict [(''221'', JDict [(''gifs'', JList [sample_artifact])])])])]"



definition sample_history_error_output :: json where
  "sample_history_error_output = JDict
     [(''p-1'', JDict
        [(''status'', JDict [(''status_str'', JStr ''error''), (''completed'', JBool False)]),
         (''outputs'', JDict [(''221'', JDict [(''gifs'', JList [sample_artifact])])])])]"

definition sample_history_other :: json where
  "sample_history_other = JDict
     [(''p-1'', JDict
        [(''status'', JDict [(''status_str'', JStr ''success''), (''completed'', JBool True)]),
         (''outputs'', JDict [(''221'', JDict [(''images'', JList [sample_artifact])])])])]"

text \<open>
  Three files: a WAV header, an error page of more than 100 bytes, and a short one.
\<close>

definition sample_wav :: string where
  "sample_wav = ''RIFF'' @ [CHR 0x24, CHR 0x08, CHR 0x00, CHR 0x00] @ ''WAVEfmt '' @ replicate 100 (CHR 0x00)"

definition sample_page :: string where
  "sample_page = ''<!DOCTYPE html><html><head><title>403 Forbidden</title></head>''
     @ ''<body><h1>Access Denied</h1><p>Request has expired</p></body></html>''"

definition sample_files :: world where
  "sample_files = sample_world\<lparr>files :=
     [''input/a.wav'' \<mapsto> sample_wav, ''input/b.png'' \<mapsto> sample_page,
      ''input/c.png'' \<mapsto> ''<!DOCTYPE html><p>gone</p>'']\<rparr>"

text \<open>
  The sample environment with a queue endpoint that answers 200 with the JSON list
  \<^verbatim>\<open>[]\<close> instead of an object; the history endpoint still answers \<^verbatim>\<open>{}\<close> every time.
\<close>

definition sample_env_queue_list :: env where
  "sample_env_queue_list =
     sample_env\<lparr>net := (\<lambda>n call.
       if call = HttpGet (JStr ''http://127.0.0.1:8188/queue'')
       then (Inr (sample_response [] (JList [])), 5)
       else sample_net n call)\<rparr>"

section \<open>Properties\<close>

subsection \<open>Text\<close>

lemma occurs_in_append: "occurs_in t (a @ t @ b)"
proof (induction a)
  case Nil
  show ?case
  proof (cases "t @ b")
    case Nil
    then show ?thesis by simp
  next
    case (Cons c s)
    have "take (length t) (t @ b) = t" by simp
    then have "take (length t) (c # s) = t" by (simp only: Cons)
    then show ?thesis by (simp only: append_Nil Cons occurs_in.simps) simp
  qed
next
  case (Cons c a)
  then show ?case by simp
qed

lemma join_has: "p \<in> set xs \<Longrightarrow> \<exists>a b. join sep xs = a @ p @ b"
proof (induction sep xs rule: join.induct)
  case (1 sep)
  then show ?case by simp
next
  case (2 sep x)
  then have "join sep [x] = [] @ p @ []" by simp
  then show ?case by blast
next
  case (3 sep x y ys)
  show ?case
  proof (cases "p = x")
    case True
    then have "join sep (x # y # ys) = [] @ p @ (sep @ join sep (y # ys))" by simp
    then show ?thesis by blast
  next
    case False
    with 3 obtain a b where "join sep (y # ys) = a @ p @ b" by auto
    then have "join sep (x # y # ys) = (x @ sep @ a) @ p @ b" by simp
    then show ?thesis by blast
  qed
qed

lemma occurs_in_join: "p \<in> set xs \<Longrightarrow> occurs_in p (join sep xs)"
  using join_has [of p xs sep] occurs_in_append by metis

subsection \<open>The request check\<close>

lemma missing_params_dict:
  "missing_params (JDict kvs) ps = Inr (filter (\<lambda>p. p \<notin> fst ` set kvs) ps)"
  by (induction ps) simp_all

lemma handler_returns_early:
  "check_request job = Return r \<Longrightarrow> handler E job w = (r, w)"
  by (simp add: handler_def handler_body_def handler_prepare_def and_then_def)

text \<open>
  C1. When the input of the job is a dict (or the job has no input, which the handler
  reads as the empty dict) and at least one of the 19 required keys is missing, the
  handler returns status 400, the message lists all the missing keys in the order of
  the required list, so every missing key occurs in it, and the world is the one the
  handler started in: nothing was requested, read, written, drawn or slept.
\<close>

theorem C1_missing_parameters:
  assumes "(case map_of job ''input'' of Some v \<Rightarrow> v | None \<Rightarrow> JDict []) = JDict kvs"
    and "\<exists>p \<in> set required_params. p \<notin> fst ` set kvs"
  shows "handler E job w =
           (failure 400 (''Missing required parameters: ''
              @ join '', '' (filter (\<lambda>p. p \<notin> fst ` set kvs) required_params)), w)
         \<and> status (fst (handler E job w)) = 400
         \<and> (\<forall>p \<in> set required_params. p \<notin> fst ` set kvs
               \<longrightarrow> occurs_in p (message (fst (handler E job w))))
         \<and> length required_params = 19"
proof -
  let ?missing = "filter (\<lambda>p. p \<notin> fst ` set kvs) required_params"
  have ne: "?missing \<noteq> []"
    using assms(2) by (auto simp: filter_empty_conv)
  have "check_request job =
      Return (failure 400 (''Missing required parameters: '' @ join '', '' ?missing))"
    using assms(1) ne by (simp add: check_request_def missing_params_dict)
  then have h: "handler E job w =
      (failure 400 (''Missing required parameters: '' @ join '', '' ?missing), w)"
    by (rule handler_returns_early)
  have occ: "occurs_in p (message (fst (handler E job w)))"
    if "p \<in> set required_params" "p \<notin> fst ` set kvs" for p
  proof -
    have "p \<in> set ?missing" using that by simp
    then have "occurs_in p (join '', '' ?missing)" by (rule occurs_in_join)
    then obtain a b where "join '', '' ?missing = a @ p @ b"
      using join_has [of p ?missing "'', ''"] \<open>p \<in> set ?missing\<close> by blast
    then have "message (fst (handler E job w)) = (''Missing required parameters: '' @ a) @ p @ b"
      using h by (simp add: failure_def)
    then show ?thesis using occurs_in_append by metis
  qed
  have len: "length required_params = 19"
    by (simp add: required_params_def)
  show ?thesis
    using h occ len by (simp add: failure_def)
qed

theorem C1_missing_parameters_witness:
  "handler sample_env sample_job_incomplete sample_world =
     (failure 400 ''Missing required parameters: fps, seed'', sample_world)"
  using C1_missing_parameters [of sample_job_incomplete
      "filter (\<lambda>kv. fst kv \<noteq> ''fps'' \<and> fst kv \<noteq> ''seed'') sample_input"
      sample_env sample_world]
  by (simp add: sample_job_incomplete_def sample_input_def required_params_def)

lemma check_request_complete:
  assumes "(case map_of job ''input'' of Some v \<Rightarrow> v | None \<Rightarrow> JDict []) = JDict kvs"
    and "set required_params \<subseteq> fst ` set kvs"
  shows "check_request job = Next (JDict kvs)"
proof -
  have "filter (\<lambda>p. p \<notin> fst ` set kvs) required_params = []"
    using assms(2) by (auto simp: filter_empty_conv)
  then show ?thesis
    using assms(1) by (simp add: check_request_def missing_params_dict)
qed

lemma handler_raises_early:
  "check_request job = Next job_input \<Longrightarrow> extract_params E job_input = Inl e \<Longrightarrow>
   handler E job w = (failure 500 (''Handler exception: '' @ exc_str e), w)"
  by (simp add: handler_def handler_body_def handler_prepare_def and_then_def raising_def)

lemmas int_literal_eval =
  int_literal_def strip_def py_space_def dec_literal_def is_digit_def digit_val_def

text \<open>
  C5, as the code has it. When all the required keys are present and a conversion of
  lines 300 to 319 raises (\<^verbatim>\<open>int\<close> or \<^verbatim>\<open>float\<close> of a field that is not a number), the
  exception reaches the handler's \<^verbatim>\<open>except\<close>: the result has status 500, not 400, its
  message is \<^verbatim>\<open>Handler exception:\<close> and the text of the exception, and nothing has been
  requested, read or written.
\<close>

theorem C5_malformed_field_is_500:
  assumes "(case map_of job ''input'' of Some v \<Rightarrow> v | None \<Rightarrow> JDict []) = JDict kvs"
    and "set required_params \<subseteq> fst ` set kvs"
    and "extract_params E (JDict kvs) = Inl e"
  shows "handler E job w = (failure 500 (''Handler exception: '' @ exc_str e), w)
         \<and> status (fst (handler E job w)) = 500"
proof -
  have "check_request job = Next (JDict kvs)"
    using assms(1,2) by (rule check_request_complete)
  then have "handler E job w = (failure 500 (''Handler exception: '' @ exc_str e), w)"
    using assms(3) by (rule handler_raises_early)
  then show ?thesis by (simp add: failure_def)
qed

theorem C5_malformed_field_is_500_witness:
  "handler sample_env sample_job_null sample_world =
     (failure 500 (''Handler exception: float() argument must be a string or a real number, not ''
        @ repr_str ''NoneType''), sample_world)"
  using C5_malformed_field_is_500 [of sample_job_null sample_input_null sample_env
      "PyExc TypeError (''float() argument must be a string or a real number, not '' @ repr_str ''NoneType'')"
      sample_world]
  by (simp add: sample_job_null_def sample_input_null_def sample_input_def required_params_def
      extract_params_def int_literal_eval)

text \<open>
  The claim as stated fails: every required key is present, \<^verbatim>\<open>num_frames\<close> is the text
  \<^verbatim>\<open>abc\<close>, and the status is 500.
\<close>

theorem C5_counterexample:
  "set required_params \<subseteq> fst ` set sample_input_malformed
   \<and> map_of sample_input_malformed ''num_frames'' = Some (JStr ''abc'')
   \<and> handler sample_env sample_job_malformed sample_world =
       (failure 500 (''Handler exception: invalid literal for int() with base 10: ''
          @ [CHR 0x27] @ ''abc'' @ [CHR 0x27]), sample_world)
   \<and> status (fst (handler sample_env sample_job_malformed sample_world)) \<noteq> 400"
proof -
  have keys: "set required_params \<subseteq> fst ` set sample_input_malformed"
    by (simp add: sample_input_malformed_def sample_input_def required_params_def)
  have field: "map_of sample_input_malformed ''num_frames'' = Some (JStr ''abc'')"
    by (simp add: sample_input_malformed_def sample_input_def)
  have inp: "(case map_of sample_job_malformed ''input'' of Some v \<Rightarrow> v | None \<Rightarrow> JDict [])
      = JDict sample_input_malformed"
    by (simp add: sample_job_malformed_def)
  have req: "check_request sample_job_malformed = Next (JDict sample_input_malformed)"
    using inp keys by (rule check_request_complete)
  have ex: "extract_params sample_env (JDict sample_input_malformed) =
      Inl (PyExc ValueError (''invalid literal for int() with base 10: '' @ [CHR 0x27] @ ''abc'' @ [CHR 0x27]))"
    by (simp add: sample_input_malformed_def sample_input_def extract_params_def int_literal_eval
        repr_str_def repr_char_def printable_def Let_def)
  have h: "handler sample_env sample_job_malformed sample_world =
       (failure 500 (''Handler exception: invalid literal for int() with base 10: ''
          @ [CHR 0x27] @ ''abc'' @ [CHR 0x27]), sample_world)"
    using handler_raises_early [OF req ex, of sample_world] by simp
  show ?thesis
    using keys field h by (simp add: failure_def)
qed

subsection \<open>The workflow binder\<close>

lemma map_of_dict_set: "map_of (dict_set k v ps) = (map_of ps)(k \<mapsto> v)"
  by (induction ps) (auto simp: fun_upd_twist)

lemma keys_dict_set: "map_of ps k = Some x \<Longrightarrow> map fst (dict_set k v ps) = map fst ps"
  by (induction ps) (auto split: if_splits)

lemma dict_set_same: "map_of ps k = Some v \<Longrightarrow> dict_set k v ps = ps"
  by (induction ps) (auto split: if_splits)

lemma set_input_Inr:
  assumes "set_input E node name v t = Inr g"
  obtains ns fs ins where "t = JDict ns" "map_of ns node = Some (JDict fs)"
    "map_of fs ''inputs'' = Some (JDict ins)"
    "g = JDict (dict_set node (JDict (dict_set ''inputs'' (JDict (dict_set name v ins)) fs)) ns)"
proof -
  obtain ns where t: "t = JDict ns"
    using assms by (cases t) (simp_all add: set_input_def)
  obtain n where n: "map_of ns node = Some n"
    using assms t by (cases "map_of ns node") (simp_all add: set_input_def)
  obtain fs where fs: "n = JDict fs"
    using assms t n by (cases n) (simp_all add: set_input_def)
  obtain i where i: "map_of fs ''inputs'' = Some i"
    using assms t n fs by (cases "map_of fs ''inputs''") (simp_all add: set_input_def)
  obtain ins where ins: "i = JDict ins"
    using assms t n fs i by (cases i) (simp_all add: set_input_def)
  have "g = JDict (dict_set node (JDict (dict_set ''inputs'' (JDict (dict_set name v ins)) fs)) ns)"
    using assms t n fs i ins by (simp add: set_input_def)
  then show thesis using that t n fs i ins by blast
qed

lemma set_input_frame:
  assumes "set_input E node name v t = Inr g"
  shows "node_ids g = node_ids t"
    and "field_names g n = field_names t n"
    and "f \<noteq> ''inputs'' \<Longrightarrow> node_field g n f = node_field t n f"
    and "n \<noteq> node \<Longrightarrow> node_of g n = node_of t n"
    and "(n, k) \<noteq> (node, name) \<Longrightarrow> node_input g n k = node_input t n k"
    and "node_input g node name = Some v"
proof -
  obtain ns fs ins where t: "t = JDict ns" and n: "map_of ns node = Some (JDict fs)"
    and i: "map_of fs ''inputs'' = Some (JDict ins)"
    and g: "g = JDict (dict_set node (JDict (dict_set ''inputs'' (JDict (dict_set name v ins)) fs)) ns)"
    using assms by (rule set_input_Inr)
  show "node_ids g = node_ids t"
    using t n g by (simp add: node_ids_def keys_dict_set)
  show "field_names g n = field_names t n"
    using t n i g by (simp add: field_names_def node_of_def map_of_dict_set keys_dict_set)
  show "f \<noteq> ''inputs'' \<Longrightarrow> node_field g n f = node_field t n f"
    using t n i g by (simp add: node_field_def node_of_def map_of_dict_set)
  show "n \<noteq> node \<Longrightarrow> node_of g n = node_of t n"
    using t n i g by (simp add: node_of_def map_of_dict_set)
  show "(n, k) \<noteq> (node, name) \<Longrightarrow> node_input g n k = node_input t n k"
    using t n i g by (auto simp: node_input_def node_field_def node_of_def map_of_dict_set)
  show "node_input g node name = Some v"
    using t n i g by (simp add: node_input_def node_field_def node_of_def map_of_dict_set)
qed

lemma set_input_same:
  assumes "node_input g node name = Some v"
  shows "set_input E node name v g = Inr g"
proof -
  obtain ns where t: "g = JDict ns"
    using assms by (cases g) (simp_all add: node_input_def node_field_def node_of_def)
  obtain fs where n: "map_of ns node = Some (JDict fs)"
    using assms t by (auto simp: node_input_def node_field_def node_of_def split: option.splits json.splits)
  obtain ins where i: "map_of fs ''inputs'' = Some (JDict ins)"
    using assms t n by (auto simp: node_input_def node_field_def node_of_def split: option.splits json.splits)
  have v: "map_of ins name = Some v"
    using assms t n i by (simp add: node_input_def node_field_def node_of_def)
  show ?thesis
    using t n i v by (simp add: set_input_def dict_set_same)
qed

lemma set_inputs_frame:
  assumes "set_inputs E slots t = Inr g"
  shows "node_ids g = node_ids t"
    and "field_names g n = field_names t n"
    and "f \<noteq> ''inputs'' \<Longrightarrow> node_field g n f = node_field t n f"
    and "n \<notin> fst ` set slots \<Longrightarrow> node_of g n = node_of t n"
    and "(n, k) \<notin> set (slot_keys slots) \<Longrightarrow> node_input g n k = node_input t n k"
  using assms
proof (induction slots arbitrary: t)
  case Nil
  { case 1 then show ?case by simp }
  { case 2 then show ?case by simp }
  { case 3 then show ?case by simp }
  { case 4 then show ?case by simp }
  { case 5 then show ?case by simp }
next
  case (Cons s slots)
  obtain node name v where s: "s = (node, name, v)" by (cases s)
  { case 1
    then obtain m where m: "set_input E node name v t = Inr m" and r: "set_inputs E slots m = Inr g"
      using s by (cases "set_input E node name v t") simp_all
    show ?case using Cons.IH(1) [OF r] set_input_frame(1) [OF m] by simp }
  { case 2
    then obtain m where m: "set_input E node name v t = Inr m" and r: "set_inputs E slots m = Inr g"
      using s by (cases "set_input E node name v t") simp_all
    show ?case using Cons.IH(2) [OF r] set_input_frame(2) [OF m] by simp }
  { case 3
    then obtain m where m: "set_input E node name v t = Inr m" and r: "set_inputs E slots m = Inr g"
      using s by (cases "set_input E node name v t") simp_all
    show ?case using Cons.IH(3) [OF 3(1) r] set_input_frame(3) [OF m 3(1)] by simp }
  { case 4
    then obtain m where m: "set_input E node name v t = Inr m" and r: "set_inputs E slots m = Inr g"
      using s by (cases "set_input E node name v t") simp_all
    have "n \<noteq> node" "n \<notin> fst ` set slots" using 4(1) s by auto
    then show ?case using Cons.IH(4) [OF _ r] set_input_frame(4) [OF m] by simp }
  { case 5
    then obtain m where m: "set_input E node name v t = Inr m" and r: "set_inputs E slots m = Inr g"
      using s by (cases "set_input E node name v t") simp_all
    have "(n, k) \<noteq> (node, name)" "(n, k) \<notin> set (slot_keys slots)" using 5(1) s by (auto simp: slot_keys_def)
    then show ?case using Cons.IH(5) [OF _ r] set_input_frame(5) [OF m] by simp }
qed

lemma set_inputs_values:
  assumes "set_inputs E slots t = Inr g" and "distinct (slot_keys slots)"
    and "(n, k, v) \<in> set slots"
  shows "node_input g n k = Some v"
  using assms
proof (induction slots arbitrary: t)
  case Nil
  then show ?case by simp
next
  case (Cons s slots)
  obtain node name x where s: "s = (node, name, x)" by (cases s)
  obtain m where m: "set_input E node name x t = Inr m" and r: "set_inputs E slots m = Inr g"
    using Cons.prems(1) s by (cases "set_input E node name x t") simp_all
  have d: "distinct (slot_keys slots)" and fresh: "(node, name) \<notin> set (slot_keys slots)"
    using Cons.prems(2) s by (simp_all add: slot_keys_def)
  show ?case
  proof (cases "(n, k, v) \<in> set slots")
    case True
    then show ?thesis using Cons.IH [OF r d] by simp
  next
    case False
    then have "(n, k, v) = (node, name, x)" using Cons.prems(3) s by simp
    then have "node_input g n k = node_input m n k"
      using set_inputs_frame(5) [OF r, of node name] fresh by simp
    then show ?thesis
      using set_input_frame(6) [OF m] \<open>(n, k, v) = (node, name, x)\<close> by simp
  qed
qed

lemma set_inputs_same:
  assumes "\<forall>(n, k, v) \<in> set slots. node_input g n k = Some v"
  shows "set_inputs E slots g = Inr g"
  using assms
proof (induction slots)
  case Nil
  then show ?case by simp
next
  case (Cons s slots)
  obtain node name x where s: "s = (node, name, x)" by (cases s)
  have "set_input E node name x g = Inr g"
    using Cons.prems s by (auto intro: set_input_same)
  then show ?case using Cons s by simp
qed


lemma slot_keys_workflow:
  "slot_keys (workflow_slots image_name audio_name ps) =
     [(''218'', ''image''), (''219'', ''audio''),
      (''223'', ''start_time''), (''223'', ''end_time''),
      (''135'', ''positive_prompt''), (''135'', ''negative_prompt''),
      (''233'', ''aspect_ratio''), (''233'', ''scale_to_side''), (''233'', ''scale_to_length''),
      (''224'', ''audio_scale''), (''224'', ''audio_cfg_scale''),
      (''224'', ''multi_audio_type''), (''224'', ''normalize_loudness''),
      (''198'', ''seed''), (''198'', ''steps''), (''198'', ''scheduler''),
      (''226'', ''value''), (''228'', ''value'')]"
  by (simp add: slot_keys_def workflow_slots_def)

lemma distinct_slot_keys: "distinct (slot_keys (workflow_slots image_name audio_name ps))"
  by (simp add: slot_keys_workflow)

text \<open>
  C7. When the binding of lines 359 to 382 succeeds, the bound workflow has the node
  identifiers of the template in the same order, every node has the field names it had,
  every field other than \<^verbatim>\<open>inputs\<close> and every node that is not written to is unchanged,
  every input that is not one of the 18 designated slots is unchanged, the designated
  slots hold the values bound, and binding the result again with the same names and
  parameters gives the same workflow.
\<close>

theorem C7_binding_frame:
  assumes "bind_workflow E image_name audio_name ps template = Inr g"
  shows "node_ids g = node_ids template
       \<and> (\<forall>n. field_names g n = field_names template n)
       \<and> (\<forall>n f. f \<noteq> ''inputs'' \<longrightarrow> node_field g n f = node_field template n f)
       \<and> (\<forall>n. n \<notin> fst ` set (workflow_slots image_name audio_name ps)
              \<longrightarrow> node_of g n = node_of template n)
       \<and> (\<forall>n k. (n, k) \<notin> set (slot_keys (workflow_slots image_name audio_name ps))
              \<longrightarrow> node_input g n k = node_input template n k)
       \<and> (\<forall>(n, k, v) \<in> set (workflow_slots image_name audio_name ps). node_input g n k = Some v)
       \<and> bind_workflow E image_name audio_name ps g = Inr g"
proof -
  let ?slots = "workflow_slots image_name audio_name ps"
  have b: "set_inputs E ?slots template = Inr g"
    using assms by (simp add: bind_workflow_def)
  have vals: "\<forall>(n, k, v) \<in> set ?slots. node_input g n k = Some v"
    using set_inputs_values [OF b distinct_slot_keys] by blast
  then have again: "bind_workflow E image_name audio_name ps g = Inr g"
    unfolding bind_workflow_def by (rule set_inputs_same)
  show ?thesis
    using set_inputs_frame [OF b] vals again by blast
qed

lemma sample_bind:
  "\<exists>g. bind_workflow sample_env ''a.png'' ''b.mp3'' sample_params sample_template = Inr g"
  by (simp add: bind_workflow_def workflow_slots_def sample_template_def sample_node_def
      set_input_def sample_params_def)

theorem C7_binding_frame_witness:
  "\<exists>g. bind_workflow sample_env ''a.png'' ''b.mp3'' sample_params sample_template = Inr g
     \<and> node_ids g = [''135'', ''198'', ''218'', ''219'', ''221'', ''223'', ''224'', ''226'', ''228'', ''233'']
     \<and> node_input g ''198'' ''model'' = Some (JList [JStr ''120'', JInt 0])
     \<and> node_of g ''221'' = node_of sample_template ''221''
     \<and> node_field g ''218'' ''class_type'' = Some (JStr ''LoadImage'')
     \<and> node_input g ''218'' ''image'' = Some (JStr ''a.png'')
     \<and> bind_workflow sample_env ''a.png'' ''b.mp3'' sample_params g = Inr g"
proof -
  obtain g where b: "bind_workflow sample_env ''a.png'' ''b.mp3'' sample_params sample_template = Inr g"
    using sample_bind by blast
  note f = C7_binding_frame [OF b]
  have ids: "node_ids g = [''135'', ''198'', ''218'', ''219'', ''221'', ''223'', ''224'', ''226'', ''228'', ''233'']"
    using f by (simp add: node_ids_def sample_template_def)
  have model: "node_input g ''198'' ''model'' = Some (JList [JStr ''120'', JInt 0])"
  proof -
    have "(''198'', ''model'') \<notin> set (slot_keys (workflow_slots ''a.png'' ''b.mp3'' sample_params))"
      by (simp add: slot_keys_workflow)
    then have "node_input g ''198'' ''model'' = node_input sample_template ''198'' ''model''"
      using f by blast
    then show ?thesis
      by (simp add: node_input_def node_field_def node_of_def sample_template_def sample_node_def)
  qed
  have n221: "node_of g ''221'' = node_of sample_template ''221''"
  proof -
    have "''221'' \<notin> fst ` set (workflow_slots ''a.png'' ''b.mp3'' sample_params)"
      by (simp add: workflow_slots_def)
    then show ?thesis using f by blast
  qed
  have cls: "node_field g ''218'' ''class_type'' = Some (JStr ''LoadImage'')"
  proof -
    have "node_field g ''218'' ''class_type'' = node_field sample_template ''218'' ''class_type''"
      using f by simp
    then show ?thesis
      by (simp add: node_field_def node_of_def sample_template_def sample_node_def)
  qed
  have img: "node_input g ''218'' ''image'' = Some (JStr ''a.png'')"
  proof -
    have "(''218'', ''image'', JStr ''a.png'') \<in> set (workflow_slots ''a.png'' ''b.mp3'' sample_params)"
      by (simp add: workflow_slots_def)
    then show ?thesis using f by blast
  qed
  show ?thesis
    using b ids model n221 cls img f by blast
qed

subsection \<open>One pass of the polling loop\<close>

lemma poll_attempt_seen:
  assumes "history_seen E url start w = Some (history, w2)"
  shows "poll_attempt E url pid nid start w =
     (case check_history E pid nid history of
        Inl e \<Rightarrow> (Inl e, w2)
      | Inr (Some res) \<Rightarrow> (Inr (Some res), w2)
      | Inr None \<Rightarrow> (Inr None, sleep E 2000 w2))"
  using assms
  by (auto simp: history_seen_def poll_attempt_def split: prod.splits sum.splits if_splits)

lemma poll_loop_returns:
  assumes "int (clock w) - int start < int timeout * 1000"
    and "history_seen E url start w = Some (history, w2)"
    and "check_history E pid nid history = Inr (Some res)"
  shows "poll_loop E url pid nid timeout start w = (res, w2)"
  using assms poll_attempt_seen [OF assms(2), of pid nid]
  by (simp add: poll_loop.simps poll_pass_def)

lemma poll_loop_raises:
  assumes "int (clock w) - int start < int timeout * 1000"
    and "history_seen E url start w = Some (history, w2)"
    and "check_history E pid nid history = Inl e"
    and "\<not> is_request_exception e"
  shows "poll_loop E url pid nid timeout start w = ((False, JStr (''Poll exception: '' @ exc_str e)), w2)"
  using assms poll_attempt_seen [OF assms(2), of pid nid]
  by (simp add: poll_loop.simps poll_pass_def)

lemma str_int_221: "str_int 221 = ''221''"
  by (simp add: str_int_def str_nat.simps digit_char_def)

lemma py_eq_str: "py_eq v (JStr s) = (v = JStr s)"
  by (cases v) (auto simp: py_eq_def split: option.splits)

lemma check_status_not_error:
  assumes "case map_of entry ''status'' of None \<Rightarrow> True
           | Some (JDict st) \<Rightarrow> map_of st ''status_str'' \<noteq> Some (JStr ''error'')
           | Some _ \<Rightarrow> False"
  shows "check_status E (JDict entry) = Inr None"
proof (cases "map_of entry ''status''")
  case None
  then have "''status'' \<notin> fst ` set entry" by (simp add: map_of_eq_None_iff)
  then show ?thesis by (simp add: check_status_def)
next
  case (Some s)
  then obtain st where st: "s = JDict st" and ne: "map_of st ''status_str'' \<noteq> Some (JStr ''error'')"
    using assms by (cases s) simp_all
  have "''status'' \<in> fst ` set entry"
    using Some by (metis map_of_eq_None_iff option.distinct(1))
  then show ?thesis
    using Some st ne by (simp add: check_status_def py_eq_str split: option.splits)
qed


lemma check_history_entry:
  assumes "map_of h pid = Some entry"
  shows "check_history E (JStr pid) nid (JDict h) =
     bindE (check_status E entry) (\<lambda>failed.
       case failed of Some r \<Rightarrow> Inr (Some r)
       | None \<Rightarrow> bindE (check_outputs E nid entry) (\<lambda>r. Inr (Some r)))"
proof -
  have "pid \<in> fst ` set h"
    using assms by (metis map_of_eq_None_iff option.distinct(1))
  then show ?thesis using assms by (simp add: check_history_def)
qed


lemma builtin_Inr [simp]: "builtin (Inr v)"
  by (simp add: builtin_def)

lemma builtin_Inl [simp]: "builtin (Inl (PyExc c t)) = (c \<noteq> Timeout \<and> c \<noteq> RequestException)"
  by (simp add: builtin_def)

lemma builtin_bindE: "builtin m \<Longrightarrow> (\<And>v. builtin (f v)) \<Longrightarrow> builtin (bindE m f)"
  by (cases m) (simp_all add: builtin_def)

lemma builtin_py_in: "builtin (py_in x c)"
  by (cases c; cases x) simp_all

lemma builtin_py_getitem: "builtin (py_getitem E c k)"
  by (cases c; cases k) (simp_all split: option.splits)

lemma builtin_py_get: "builtin (py_get c k d)"
  by (cases c) simp_all

lemma builtin_py_len: "builtin (py_len c)"
  by (cases c) simp_all

lemma builtin_py_iter: "builtin (py_iter c)"
  by (cases c) simp_all

lemma builtin_py_keys: "builtin (py_keys c)"
  by (cases c) simp_all

lemma builtin_error_details: "builtin (error_details E msgs)"
proof (induction msgs)
  case Nil
  then show ?case by simp
next
  case (Cons msg msgs)
  show ?case
    by (cases msg) (auto intro!: builtin_bindE builtin_py_get Cons)
qed

lemma builtin_check_status: "builtin (check_status E r)"
  unfolding check_status_def
  by (auto intro!: builtin_bindE builtin_py_in builtin_py_getitem builtin_py_get builtin_py_iter
      builtin_error_details)

lemma builtin_check_outputs: "builtin (check_outputs E nid r)"
  unfolding check_outputs_def
  by (auto intro!: builtin_bindE builtin_py_in builtin_py_getitem builtin_py_get builtin_py_len
      builtin_py_keys)

lemma builtin_check_history: "builtin (check_history E pid nid h)"
  unfolding check_history_def
  by (auto intro!: builtin_bindE builtin_py_in builtin_py_getitem builtin_check_status
      builtin_check_outputs split: option.splits)


lemma not_request_exception:
  "m = Inl e \<Longrightarrow> builtin m \<Longrightarrow> \<not> is_request_exception e"
  by (simp add: builtin_def)

lemma check_status_False:
  "check_status E r = Inr (Some res) \<Longrightarrow> \<exists>msg. res = (False, JStr msg)"
  by (auto simp: check_status_def bindE_def split: sum.splits if_splits)

lemma check_status_error:
  assumes "map_of entry ''status'' = Some (JDict st)"
    and "map_of st ''status_str'' = Some (JStr ''error'')"
  shows "check_status E (JDict entry) \<noteq> Inr None"
proof -
  have "''status'' \<in> fst ` set entry"
    using assms(1) by (metis map_of_eq_None_iff option.distinct(1))
  then show ?thesis
    using assms by (auto simp: check_status_def py_eq_str bindE_def split: sum.splits)
qed

lemma poll_pass_success:
  assumes "poll_pass E url pid nid start w = (Some (True, f), w1)"
  shows "\<exists>history. history_seen E url start w = Some (history, w1)
           \<and> check_history E pid nid history = Inr (Some (True, f))"
  using assms
  by (auto simp: poll_pass_def poll_attempt_def history_seen_def
      split: prod.splits sum.splits if_splits option.splits)

lemma poll_loop_success:
  "poll_loop E url pid nid timeout start w = ((True, f), w') \<Longrightarrow>
   \<exists>w0 history. history_seen E url start w0 = Some (history, w')
      \<and> check_history E pid nid history = Inr (Some (True, f))"
proof (induction E url pid nid timeout start w rule: poll_loop.induct)
  case (1 E url pid nid timeout start w)
  show ?case
  proof (cases "int (clock w) - int start < int timeout * 1000")
    case False
    then show ?thesis using "1.prems" by (simp add: poll_loop.simps)
  next
    case True
    obtain out w1 where p: "poll_pass E url pid nid start w = (out, w1)"
      by (cases "poll_pass E url pid nid start w")
    show ?thesis
    proof (cases out)
      case None
      then have "poll_loop E url pid nid timeout start w1 = ((True, f), w')"
        using "1.prems" True p by (simp add: poll_loop.simps [of E url pid nid timeout start w])
      then show ?thesis
        using "1.IH" [OF True p [symmetric] None] by blast
    next
      case (Some res)
      then have "res = (True, f)" "w1 = w'"
        using "1.prems" True p by (simp_all add: poll_loop.simps [of E url pid nid timeout start w])
      then show ?thesis
        using poll_pass_success p Some by blast
    qed
  qed
qed


lemma sample_seen:
  "\<exists>w2. history_seen (sample_env_with history) comfy_url 0 sample_world = Some (history, w2)"
  by (simp add: history_seen_def poll_queue_def http_def sample_env_with_def sample_env_def
      sample_net_def sample_response_def comfy_url_def advance_def logged_def sample_world_def)






text \<open>
  C9. In a pass that gets a history where the status of the entry says \<^verbatim>\<open>error\<close>, the
  loop returns a failure, whatever else the entry holds: the outputs are not looked at,
  and the look at this history never gives a success.
\<close>

theorem C9_error_status_first:
  assumes "int (clock w) - int start_time < int timeout * 1000"
    and "history_seen E url start_time w = Some (JDict h, w2)"
    and "map_of h pid = Some (JDict entry)"
    and "map_of entry ''status'' = Some (JDict st)"
    and "map_of st ''status_str'' = Some (JStr ''error'')"
  shows "(\<exists>msg. poll_loop E url (JStr pid) nid timeout start_time w = ((False, JStr msg), w2))
       \<and> (\<forall>f. check_history E (JStr pid) nid (JDict h) \<noteq> Inr (Some (True, f)))"
proof (cases "check_status E (JDict entry)")
  case (Inl e)
  then have "\<not> is_request_exception e"
    using builtin_check_status [of E "JDict entry"] by (rule not_request_exception)
  moreover have "check_history E (JStr pid) nid (JDict h) = Inl e"
    using check_history_entry [OF assms(3)] Inl by simp
  ultimately show ?thesis
    using poll_loop_raises [OF assms(1,2)] by auto
next
  case (Inr r)
  then obtain res where r: "r = Some res"
    using check_status_error [OF assms(4,5), of E] by (cases r) simp_all
  then obtain msg where "res = (False, JStr msg)"
    using Inr check_status_False by blast
  then have "check_history E (JStr pid) nid (JDict h) = Inr (Some (False, JStr msg))"
    using check_history_entry [OF assms(3)] Inr r by simp
  then show ?thesis
    using poll_loop_returns [OF assms(1,2)] by auto
qed

theorem C9_error_status_first_witness:
  "\<exists>msg. fst (poll_loop (sample_env_with sample_history_error_output) comfy_url (JStr ''p-1'') 221 600
       0 sample_world) = (False, JStr msg)"
proof -
  obtain w2 where seen: "history_seen (sample_env_with sample_history_error_output) comfy_url 0 sample_world
      = Some (sample_history_error_output, w2)"
    using sample_seen by blast
  have "\<exists>msg. poll_loop (sample_env_with sample_history_error_output) comfy_url (JStr ''p-1'') 221 600
       0 sample_world = ((False, JStr msg), w2)"
    using C9_error_status_first [of sample_world 0 600 "sample_env_with sample_history_error_output"
        comfy_url _ w2 "''p-1''" _ _ 221]
      seen
    by (simp add: sample_history_error_output_def sample_world_def)
  then show ?thesis by auto
qed

lemma check_outputs_success:
  assumes "check_outputs E nid pr = Inr (True, f)"
  obtains entry outs node_output artifact others where
    "pr = JDict entry" "map_of entry ''outputs'' = Some (JDict outs)"
    "map_of outs (str_int nid) = Some (JDict node_output)"
    "map_of node_output ''gifs'' = Some (JList (JDict artifact # others))"
    "map_of artifact ''filename'' = Some f"
proof -
  obtain entry where pr: "pr = JDict entry"
    using assms by (cases pr) (simp_all add: check_outputs_def)
  obtain outputs where o1: "py_get pr ''outputs'' (JDict []) = Inr outputs"
    using assms by (cases "py_get pr ''outputs'' (JDict [])") (simp_all add: check_outputs_def)
  obtain node_output where o2: "py_get outputs (str_int nid) (JDict []) = Inr node_output"
    using assms o1
    by (cases "py_get outputs (str_int nid) (JDict [])") (simp_all add: check_outputs_def)
  obtain has_gifs where o3: "py_in (JStr ''gifs'') node_output = Inr has_gifs"
    using assms o1 o2
    by (cases "py_in (JStr ''gifs'') node_output") (simp_all add: check_outputs_def)
  let ?ready = "if has_gifs
            then bindE (py_getitem E node_output (JStr ''gifs'')) (\<lambda>gifs.
                 bindE (py_len gifs) (\<lambda>n. Inr (0 < n)))
            else Inr False"
  obtain ready where o4: "?ready = Inr ready"
    using assms o1 o2 o3 by (cases ?ready) (simp_all add: check_outputs_def)
  have o5: "ready"
    using assms o1 o2 o3 o4
    by (cases ready) (auto simp: check_outputs_def bindE_def split: sum.splits if_splits)
  have a3: "bindE (py_getitem E node_output (JStr ''gifs'')) (\<lambda>gifs.
         bindE (py_getitem E gifs (JInt 0)) (\<lambda>first.
         bindE (py_getitem E first (JStr ''filename'')) (\<lambda>filename.
           Inr (True, filename)))) = Inr (True, f)"
    using assms o1 o2 o3 o4 o5 by (simp add: check_outputs_def)
  obtain outs where outs: "outputs = JDict outs"
    using o2 by (cases outputs) simp_all
  have outputs_def: "outputs = (case map_of entry ''outputs'' of Some v \<Rightarrow> v | None \<Rightarrow> JDict [])"
    using o1 pr by simp
  have node_output_def: "node_output = (case map_of outs (str_int nid) of Some v \<Rightarrow> v | None \<Rightarrow> JDict [])"
    using o2 outs by simp
  obtain gifs where g: "py_getitem E node_output (JStr ''gifs'') = Inr gifs"
    using a3 by (cases "py_getitem E node_output (JStr ''gifs'')") simp_all
  obtain first where fi: "py_getitem E gifs (JInt 0) = Inr first"
    using a3 g by (cases "py_getitem E gifs (JInt 0)") simp_all
  have fn: "py_getitem E first (JStr ''filename'') = Inr f"
    using a3 g fi by (cases "py_getitem E first (JStr ''filename'')") simp_all
  obtain artifact where art: "first = JDict artifact" "map_of artifact ''filename'' = Some f"
    using fn by (cases first) (auto split: option.splits)
  obtain node where no: "node_output = JDict node" "map_of node ''gifs'' = Some gifs"
    using g by (cases node_output) (auto split: option.splits)
  obtain xs where xs: "gifs = JList xs"
    using fi art by (cases gifs) (auto split: option.splits)
  have "xs \<noteq> []" "xs ! 0 = first"
    using fi xs by (auto simp: seq_index_def split: if_splits)
  then obtain others where o: "xs = JDict artifact # others"
    using art by (cases xs) simp_all
  have m1: "map_of entry ''outputs'' = Some (JDict outs)"
  proof (cases "map_of entry ''outputs''")
    case None
    then have "outs = []" using outs by (simp add: outputs_def)
    then have "node_output = JDict []" by (simp add: node_output_def)
    then show ?thesis using no by simp
  next
    case (Some v)
    then show ?thesis using outs by (simp add: outputs_def)
  qed
  have m2: "map_of outs (str_int nid) = Some (JDict node)"
  proof (cases "map_of outs (str_int nid)")
    case None
    then have "node_output = JDict []" by (simp add: node_output_def)
    then show ?thesis using no by simp
  next
    case (Some v)
    then show ?thesis using no by (simp add: node_output_def)
  qed
  show thesis
    using that [OF pr m1 m2 _ art(2)] no xs o by simp
qed

lemma check_history_success:
  assumes "check_history E pid nid history = Inr (Some (True, f))"
  shows "\<exists>entry outs node_output artifact others.
     py_getitem E history pid = Inr (JDict entry)
     \<and> map_of entry ''outputs'' = Some (JDict outs)
     \<and> map_of outs (str_int nid) = Some (JDict node_output)
     \<and> map_of node_output ''gifs'' = Some (JList (JDict artifact # others))
     \<and> map_of artifact ''filename'' = Some f"
proof -
  obtain found where f1: "py_in pid history = Inr found"
    using assms by (cases "py_in pid history") (simp_all add: check_history_def)
  have f2: "found"
    using assms f1 by (cases found) (simp_all add: check_history_def)
  obtain pr where pr: "py_getitem E history pid = Inr pr"
    using assms f1 f2 by (cases "py_getitem E history pid") (simp_all add: check_history_def)
  have rest: "bindE (check_status E pr) (\<lambda>failed.
           case failed of
             Some r \<Rightarrow> Inr (Some r)
           | None \<Rightarrow> bindE (check_outputs E nid pr) (\<lambda>r. Inr (Some r))) = Inr (Some (True, f))"
    using assms f1 f2 pr by (simp add: check_history_def)
  obtain failed where st: "check_status E pr = Inr failed"
    using rest by (cases "check_status E pr") simp_all
  have "failed = None"
  proof (cases failed)
    case None then show ?thesis .
  next
    case (Some r)
    then have "r = (True, f)" using rest st by simp
    moreover obtain msg where "r = (False, JStr msg)"
      using st Some check_status_False by blast
    ultimately show ?thesis by simp
  qed
  then have "check_outputs E nid pr = Inr (True, f)"
    using rest st by (cases "check_outputs E nid pr") simp_all
  then show ?thesis
    using pr by (elim check_outputs_success) blast
qed

lemma check_outputs_without:
  assumes "(case map_of entry ''outputs'' of None \<Rightarrow> JDict [] | Some v \<Rightarrow> v) = JDict outs"
    and "case map_of outs (str_int nid) of
           None \<Rightarrow> True
         | Some (JDict node_output) \<Rightarrow>
             (case map_of node_output ''gifs'' of None \<Rightarrow> True | Some g \<Rightarrow> py_len g = Inr 0)
         | Some _ \<Rightarrow> False"
  shows "check_outputs E nid (JDict entry) =
     Inr (False, JStr (if outs = [] then ''Workflow completed but produced no outputs''
        else ''Node '' @ str_int nid @ '' has no output. Available outputs from nodes: ''
               @ py_repr E (JList (map (\<lambda>kv. JStr (fst kv)) outs))))"
proof (cases "map_of outs (str_int nid)")
  case None
  then show ?thesis
    using assms(1) by (simp add: check_outputs_def)
next
  case (Some v)
  then obtain node_output where v: "v = JDict node_output"
    and g: "case map_of node_output ''gifs'' of None \<Rightarrow> True | Some g \<Rightarrow> py_len g = Inr 0"
    using assms(2) by (cases v) simp_all
  show ?thesis
  proof (cases "map_of node_output ''gifs''")
    case None
    then have "''gifs'' \<notin> fst ` set node_output" by (simp add: map_of_eq_None_iff)
    then show ?thesis
      using assms(1) Some v by (simp add: check_outputs_def)
  next
    case (Some gifs)
    then have "''gifs'' \<in> fst ` set node_output"
      by (metis map_of_eq_None_iff option.distinct(1))
    moreover have "py_len gifs = Inr 0" using g Some by simp
    ultimately show ?thesis
      using assms(1) \<open>map_of outs (str_int nid) = Some v\<close> v Some by (simp add: check_outputs_def)
  qed
qed


text \<open>
  C10. The loop returns success only from a history whose entry for the id is a dict
  with outputs that hold, at the text of the node id (\<^verbatim>\<open>221\<close> for the handler), a dict
  with a list \<^verbatim>\<open>gifs\<close> that is not empty, and the value returned is the \<^verbatim>\<open>filename\<close> of
  its first artifact. In a pass that gets a history where the entry has no error status
  and the node has no \<^verbatim>\<open>gifs\<close> (no output at all, or outputs under other keys) or an
  empty one, the loop returns a failure: \<^verbatim>\<open>no outputs\<close> when the outputs are empty,
  otherwise the message that lists the nodes with outputs.
\<close>

theorem C10_completion_shape:
  "(poll_result E url pid nid timeout w = ((True, f), w') \<longrightarrow>
      (\<exists>w0 history entry outs node_output artifact others.
         history_seen E url (clock w) w0 = Some (history, w')
         \<and> py_getitem E history pid = Inr (JDict entry)
         \<and> map_of entry ''outputs'' = Some (JDict outs)
         \<and> map_of outs (str_int nid) = Some (JDict node_output)
         \<and> map_of node_output ''gifs'' = Some (JList (JDict artifact # others))
         \<and> map_of artifact ''filename'' = Some f))
   \<and> (int (clock w) - int start_time < int timeout * 1000
        \<longrightarrow> history_seen E url start_time w = Some (JDict h, w2)
        \<longrightarrow> map_of h p = Some (JDict entry)
        \<longrightarrow> (case map_of entry ''status'' of None \<Rightarrow> True
             | Some (JDict st) \<Rightarrow> map_of st ''status_str'' \<noteq> Some (JStr ''error'')
             | Some _ \<Rightarrow> False)
        \<longrightarrow> (case map_of entry ''outputs'' of None \<Rightarrow> JDict [] | Some v \<Rightarrow> v) = JDict outs
        \<longrightarrow> (case map_of outs (str_int nid) of
               None \<Rightarrow> True
             | Some (JDict node_output) \<Rightarrow>
                 (case map_of node_output ''gifs'' of None \<Rightarrow> True | Some g \<Rightarrow> py_len g = Inr 0)
             | Some _ \<Rightarrow> False)
        \<longrightarrow> poll_loop E url (JStr p) nid timeout start_time w =
              ((False, JStr (if outs = [] then ''Workflow completed but produced no outputs''
                  else ''Node '' @ str_int nid @ '' has no output. Available outputs from nodes: ''
                         @ py_repr E (JList (map (\<lambda>kv. JStr (fst kv)) outs)))), w2))
   \<and> str_int 221 = ''221''"
proof (intro conjI impI)
  assume "poll_result E url pid nid timeout w = ((True, f), w')"
  then obtain w0 history where seen: "history_seen E url (clock w) w0 = Some (history, w')"
    and ch: "check_history E pid nid history = Inr (Some (True, f))"
    unfolding poll_result_def using poll_loop_success by blast
  show "\<exists>w0 history entry outs node_output artifact others.
         history_seen E url (clock w) w0 = Some (history, w')
         \<and> py_getitem E history pid = Inr (JDict entry)
         \<and> map_of entry ''outputs'' = Some (JDict outs)
         \<and> map_of outs (str_int nid) = Some (JDict node_output)
         \<and> map_of node_output ''gifs'' = Some (JList (JDict artifact # others))
         \<and> map_of artifact ''filename'' = Some f"
    using seen check_history_success [OF ch] by blast
next
  assume guard: "int (clock w) - int start_time < int timeout * 1000"
    and seen: "history_seen E url start_time w = Some (JDict h, w2)"
    and entry: "map_of h p = Some (JDict entry)"
    and st: "case map_of entry ''status'' of None \<Rightarrow> True
             | Some (JDict st) \<Rightarrow> map_of st ''status_str'' \<noteq> Some (JStr ''error'')
             | Some _ \<Rightarrow> False"
    and outs: "(case map_of entry ''outputs'' of None \<Rightarrow> JDict [] | Some v \<Rightarrow> v) = JDict outs"
    and node: "case map_of outs (str_int nid) of
               None \<Rightarrow> True
             | Some (JDict node_output) \<Rightarrow>
                 (case map_of node_output ''gifs'' of None \<Rightarrow> True | Some g \<Rightarrow> py_len g = Inr 0)
             | Some _ \<Rightarrow> False"
  let ?msg = "if outs = [] then ''Workflow completed but produced no outputs''
                  else ''Node '' @ str_int nid @ '' has no output. Available outputs from nodes: ''
                         @ py_repr E (JList (map (\<lambda>kv. JStr (fst kv)) outs))"
  have s: "check_status E (JDict entry) = Inr None"
    using st by (rule check_status_not_error)
  have o: "check_outputs E nid (JDict entry) = Inr (False, JStr ?msg)"
    using outs node by (rule check_outputs_without)
  have "check_history E (JStr p) nid (JDict h) = Inr (Some (False, JStr ?msg))"
    using check_history_entry [OF entry] s o by simp
  then show "poll_loop E url (JStr p) nid timeout start_time w = ((False, JStr ?msg), w2)"
    using guard seen by (intro poll_loop_returns)
next
  show "str_int 221 = ''221''" by (rule str_int_221)
qed

lemma sample_done_run:
  "\<exists>w2. poll_result (sample_env_with sample_history_done) comfy_url (JStr ''p-1'') 221 600 sample_world
     = ((True, JStr ''result.mp4''), w2)"
proof -
  obtain w2 where seen: "history_seen (sample_env_with sample_history_done) comfy_url 0 sample_world
      = Some (sample_history_done, w2)"
    using sample_seen by blast
  have ch: "check_history (sample_env_with sample_history_done) (JStr ''p-1'') 221 sample_history_done
      = Inr (Some (True, JStr ''result.mp4''))"
    by (simp add: check_history_def check_status_def check_outputs_def sample_history_done_def
        sample_artifact_def py_eq_str str_int_221 seq_index_def)
  have "poll_loop (sample_env_with sample_history_done) comfy_url (JStr ''p-1'') 221 600 0 sample_world
      = ((True, JStr ''result.mp4''), w2)"
    using seen ch by (intro poll_loop_returns) (simp_all add: sample_world_def)
  then show ?thesis by (simp add: poll_result_def sample_world_def)
qed

theorem C10_completion_shape_witness:
  "(\<exists>w0 w2 history entry outs node_output artifact others.
       history_seen (sample_env_with sample_history_done) comfy_url 0 w0 = Some (history, w2)
       \<and> py_getitem (sample_env_with sample_history_done) history (JStr ''p-1'') = Inr (JDict entry)
       \<and> map_of entry ''outputs'' = Some (JDict outs)
       \<and> map_of outs ''221'' = Some (JDict node_output)
       \<and> map_of node_output ''gifs'' = Some (JList (JDict artifact # others))
       \<and> map_of artifact ''filename'' = Some (JStr ''result.mp4''))
   \<and> fst (poll_loop (sample_env_with sample_history_other) comfy_url (JStr ''p-1'') 221 600 0 sample_world)
       = (False, JStr (''Node 221 has no output. Available outputs from nodes: [''
            @ [CHR 0x27] @ ''221'' @ [CHR 0x27] @ '']''))"
proof -
  obtain w2 where run: "poll_result (sample_env_with sample_history_done) comfy_url (JStr ''p-1'') 221 600
      sample_world = ((True, JStr ''result.mp4''), w2)"
    using sample_done_run by blast
  note a = C10_completion_shape [of "sample_env_with sample_history_done" comfy_url "JStr ''p-1''" 221 600
      sample_world "JStr ''result.mp4''" w2, THEN conjunct1, rule_format, OF run]
  have first: "\<exists>w0 w2 history entry outs node_output artifact others.
       history_seen (sample_env_with sample_history_done) comfy_url 0 w0 = Some (history, w2)
       \<and> py_getitem (sample_env_with sample_history_done) history (JStr ''p-1'') = Inr (JDict entry)
       \<and> map_of entry ''outputs'' = Some (JDict outs)
       \<and> map_of outs ''221'' = Some (JDict node_output)
       \<and> map_of node_output ''gifs'' = Some (JList (JDict artifact # others))
       \<and> map_of artifact ''filename'' = Some (JStr ''result.mp4'')"
    using a by (simp add: str_int_221 sample_world_def) blast
  obtain w3 where seen: "history_seen (sample_env_with sample_history_other) comfy_url 0 sample_world
      = Some (sample_history_other, w3)"
    using sample_seen by blast
  have "poll_loop (sample_env_with sample_history_other) comfy_url (JStr ''p-1'') 221 600 0 sample_world
      = ((False, JStr (''Node 221 has no output. Available outputs from nodes: [''
            @ [CHR 0x27] @ ''221'' @ [CHR 0x27] @ '']'')), w3)"
    using C10_completion_shape [of "sample_env_with sample_history_other" comfy_url _ 221 600
        sample_world _ _ 0 _ w3 "''p-1''" _ "[(''221'', JDict [(''images'', JList [sample_artifact])])]"]
      seen
    by (simp add: sample_history_other_def sample_world_def str_int_221 repr_str_def repr_char_def
        printable_def Let_def)
  then show ?thesis using first by simp
qed


subsection \<open>The sample run, stage by stage\<close>

lemma files_logged [simp]: "files (logged ev w) = files w"
  by (simp add: logged_def)

lemma files_advance_sample [simp]: "files (advance sample_env ms w) = files w"
  by (simp add: advance_def sample_env_def)

lemma files_write_file [simp]: "files (write_file p b w) = (files w)(p \<mapsto> b)"
  by (simp add: write_file_def logged_def)

lemma sample_seed:
  "generate_random_seed sample_env w = (1000000000000003, advance sample_env 0 (logged Random w))"
  by (simp add: generate_random_seed_def randint_def sample_env_def)

lemma sample_str_seed: "str_int 1000000000000003 = ''1000000000000003''"
  by (simp add: str_int_def str_nat.simps digit_char_def)

lemma sample_download_image:
  "download_file sample_env (JStr ''https://cdn.example/face.jpg'') name w =
     ((True, ''input/'' @ name),
      write_file (''input/'' @ name) sample_image
        (advance sample_env 40 (logged (Request (HttpGet (JStr ''https://cdn.example/face.jpg''))) w)))"
  by (simp add: download_file_def http_def sample_env_def sample_net_def sample_response_def
      sample_image_def Let_def)

lemma sample_download_audio:
  "download_file sample_env (JStr ''https://cdn.example/voice.mp3'') name w =
     ((True, ''input/'' @ name),
      write_file (''input/'' @ name) sample_audio
        (advance sample_env 30 (logged (Request (HttpGet (JStr ''https://cdn.example/voice.mp3''))) w)))"
  by (simp add: download_file_def http_def sample_env_def sample_net_def sample_response_def
      sample_audio_def Let_def)

lemma occurs_in_set: "occurs_in t s \<Longrightarrow> set t \<subseteq> set s"
proof (induction s)
  case Nil
  then show ?case by simp
next
  case (Cons c s)
  show ?case
  proof (cases "take (length t) (c # s) = t")
    case True
    have "set (take (length t) (c # s)) \<subseteq> set (c # s)" by (rule set_take_subset)
    then show ?thesis using True by simp
  next
    case False
    then have "occurs_in t s" using Cons.prems by simp
    then show ?thesis using Cons.IH by auto
  qed
qed

lemma sample_validate_image:
  assumes "files w p = Some sample_image"
  shows "\<exists>m w1. validate_image_file p w = ((True, m), w1) \<and> files w1 = files w"
  using assms
  by (simp add: validate_image_file_def path_exists_def getsize_def read_head_def Let_def
      sample_image_def imghdr_what_def slice_def)

lemma sample_validate_audio:
  assumes "files w p = Some sample_audio"
  shows "\<exists>m w1. validate_audio_file p w = ((True, m), w1) \<and> files w1 = files w"
  using assms
  by (auto simp: validate_audio_file_def path_exists_def getsize_def read_head_def Let_def
      sample_audio_def slice_def dest: occurs_in_set)

lemma sample_truediv: "py_truediv (num_frames sample_params) (fps sample_params) = Inr (Finite (81 / 25))"
  by (simp add: py_truediv_def sample_params_def)

lemma sample_stage:
  "\<exists>w1. stage_assets sample_env sample_params w =
      (Next (sample_params\<lparr>seed := 1000000000000003\<rparr>,
         ''input_image_1000000000000003.png'', ''input_audio_1000000000000003.mp3''), w1)
      \<and> files w1 ''multitalk_api.json'' = files w ''multitalk_api.json''"
proof -
  have s: "seed sample_params = - 1" "image_url sample_params = JStr ''https://cdn.example/face.jpg''"
    "audio_url sample_params = JStr ''https://cdn.example/voice.mp3''"
    by (simp_all add: sample_params_def)
  let ?w1 = "advance sample_env 0 (logged Random w)"
  let ?w2 = "advance sample_env 0 (logged Random ?w1)"
  let ?img = "''input/input_image_1000000000000003.png''"
  let ?w3 = "write_file ?img sample_image
        (advance sample_env 40 (logged (Request (HttpGet (JStr ''https://cdn.example/face.jpg''))) ?w2))"
  obtain m w4 where v: "validate_image_file ?img ?w3 = ((True, m), w4)" and f4: "files w4 = files ?w3"
    using sample_validate_image [of ?w3 ?img] by auto
  let ?w5 = "advance sample_env 0 (logged Random w4)"
  let ?aud = "''input/input_audio_1000000000000003.mp3''"
  let ?w6 = "write_file ?aud sample_audio
        (advance sample_env 30 (logged (Request (HttpGet (JStr ''https://cdn.example/voice.mp3''))) ?w5))"
  obtain m2 w7 where v2: "validate_audio_file ?aud ?w6 = ((True, m2), w7)" and f7: "files w7 = files ?w6"
    using sample_validate_audio [of ?w6 ?aud] by auto
  have "stage_assets sample_env sample_params w =
      (Next (sample_params\<lparr>seed := 1000000000000003\<rparr>,
         ''input_image_1000000000000003.png'', ''input_audio_1000000000000003.mp3''), w7)"
    using v v2
    by (simp add: stage_assets_def resolve_seed_def s sample_seed sample_truediv sample_str_seed
        sample_download_image sample_download_audio)
  moreover have "files w7 ''multitalk_api.json'' = files w ''multitalk_api.json''"
    using f4 f7 by simp
  ultimately show ?thesis by blast
qed

lemma sample_bind_any: "\<exists>g. bind_workflow E image_name audio_name ps sample_template = Inr g"
  by (simp add: bind_workflow_def workflow_slots_def sample_template_def sample_node_def
      set_input_def)

lemma sample_load:
  assumes "files w ''multitalk_api.json'' = Some b"
  shows "\<exists>w1. load_workflow sample_env w = (Next sample_template, w1)"
  using assms
  by (simp add: load_workflow_def path_exists_def read_file_def raising_def sample_env_def Let_def)

lemma sample_submit: "\<exists>w1. submit_workflow sample_env g w = (Next (JStr ''p-1''), w1)"
  by (simp add: submit_workflow_def eval_nat_numeral http_def sample_env_def sample_net_def
      comfy_url_def sample_response_def raising_def)

lemma sample_check_request: "check_request sample_job = Next (JDict sample_input)"
  by (simp add: check_request_def missing_params_dict sample_job_def sample_input_def
      required_params_def)

lemma sample_extract: "extract_params sample_env (JDict sample_input) = Inr sample_params"
  by (simp add: extract_params_def sample_input_def sample_params_def int_literal_eval)

lemma sample_prepare:
  "\<exists>ps w1. handler_prepare sample_env sample_job sample_world = (Next (ps, JStr ''p-1''), w1)"
proof -
  obtain w2 where st: "stage_assets sample_env sample_params sample_world =
      (Next (sample_params\<lparr>seed := 1000000000000003\<rparr>,
         ''input_image_1000000000000003.png'', ''input_audio_1000000000000003.mp3''), w2)"
    and f2: "files w2 ''multitalk_api.json'' = files sample_world ''multitalk_api.json''"
    using sample_stage by blast
  have "files w2 ''multitalk_api.json'' = Some ''{}''"
    using f2 by (simp add: sample_world_def)
  then obtain w3 where ld: "load_workflow sample_env w2 = (Next sample_template, w3)"
    using sample_load by blast
  obtain g where b: "bind_workflow sample_env ''input_image_1000000000000003.png''
      ''input_audio_1000000000000003.mp3'' (sample_params\<lparr>seed := 1000000000000003\<rparr>) sample_template = Inr g"
    using sample_bind_any by blast
  obtain w5 where sb: "submit_workflow sample_env g w3 = (Next (JStr ''p-1''), w5)"
    using sample_submit by blast
  have "handler_prepare sample_env sample_job sample_world =
      (Next (sample_params\<lparr>seed := 1000000000000003\<rparr>, JStr ''p-1''), w5)"
    using st ld b sb
    by (simp add: handler_prepare_def and_then_def raising_def sample_check_request sample_extract)
  then show ?thesis by blast
qed

subsection \<open>The time budget\<close>

lemma ticks_http: "http E call w = (r, w1) \<Longrightarrow> ticks w1 = Suc (ticks w)"
  by (auto simp: http_def advance_def logged_def split: prod.splits)

lemma fst_http: "http E call w = (r, w1) \<Longrightarrow> r = fst (net E (ticks w) call)"
  by (auto simp: http_def split: prod.splits)

lemma ticks_sleep: "ticks (sleep E ms w) = Suc (ticks w)"
  by (simp add: sleep_def advance_def logged_def)

lemma quiet_queue:
  assumes "queue_quiet (fst (net E (ticks w) (HttpGet (JStr (url @ ''/queue'')))))"
  shows "\<exists>w1. ticks w1 = Suc (ticks w) \<and>
     (poll_queue E url start w = (Inr (), w1)
      \<or> (\<exists>e. poll_queue E url start w = (Inl e, w1) \<and> is_request_exception e))"
proof -
  obtain r w1 where h: "http E (HttpGet (JStr (url @ ''/queue''))) w = (r, w1)"
    by (cases "http E (HttpGet (JStr (url @ ''/queue''))) w")
  have t: "ticks w1 = Suc (ticks w)" using h by (rule ticks_http)
  have q: "queue_quiet r" using assms fst_http [OF h] by simp
  have "poll_queue E url start w = (Inr (), w1)
      \<or> (\<exists>e. poll_queue E url start w = (Inl e, w1) \<and> is_request_exception e)"
    using q h
    by (auto simp: poll_queue_def queue_quiet_def has_len_def
        split: sum.splits json.splits option.splits if_splits)
  then show ?thesis using t by blast
qed

lemma quiet_history:
  assumes "history_quiet pid (Inr r)" "status_code r = 200" "json_body r = Inr history"
  shows "check_history E (JStr pid) nid history = Inr None"
  using assms
  by (auto simp: history_quiet_def check_history_def split: json.splits)

lemma quiet_pass:
  assumes "queue_quiet (fst (net E (ticks w) (HttpGet (JStr (url @ ''/queue'')))))"
    and "history_quiet pid (fst (net E (Suc (ticks w)) (HttpGet (JStr (url @ ''/history'')))))"
  shows "\<exists>w1. poll_pass E url (JStr pid) nid start w = (None, w1) \<and> ticks w \<le> ticks w1"
proof -
  obtain wq where tq: "ticks wq = Suc (ticks w)"
    and q: "poll_queue E url start w = (Inr (), wq)
      \<or> (\<exists>e. poll_queue E url start w = (Inl e, wq) \<and> is_request_exception e)"
    using quiet_queue [OF assms(1), of start] by blast
  from q show ?thesis
  proof
    assume "\<exists>e. poll_queue E url start w = (Inl e, wq) \<and> is_request_exception e"
    then show ?thesis
      using tq by (auto simp: poll_pass_def poll_attempt_def ticks_sleep)
  next
    assume pq: "poll_queue E url start w = (Inr (), wq)"
    obtain r wh where h: "http E (HttpGet (JStr (url @ ''/history''))) wq = (r, wh)"
      by (cases "http E (HttpGet (JStr (url @ ''/history''))) wq")
    have th: "ticks wh = Suc (Suc (ticks w))" using ticks_http [OF h] tq by simp
    have hq: "history_quiet pid r" using assms(2) fst_http [OF h] tq by simp
    show ?thesis
    proof (cases r)
      case (Inl e)
      then have "is_request_exception e" using hq by (simp add: history_quiet_def)
      then show ?thesis
        using pq h Inl th by (simp add: poll_pass_def poll_attempt_def ticks_sleep)
    next
      case (Inr resp)
      show ?thesis
      proof (cases "status_code resp = 200")
        case False
        then show ?thesis
          using pq h Inr th by (simp add: poll_pass_def poll_attempt_def ticks_sleep)
      next
        case True
        show ?thesis
        proof (cases "json_body resp")
          case (Inl e)
          then have "is_request_exception e" using hq Inr True by (simp add: history_quiet_def)
          then show ?thesis
            using pq h Inr True Inl th by (simp add: poll_pass_def poll_attempt_def ticks_sleep)
        next
          case (Inr history)
          have "check_history E (JStr pid) nid history = Inr None"
            using hq \<open>r = Inr resp\<close> True Inr by (intro quiet_history) simp_all
          then show ?thesis
            using pq h \<open>r = Inr resp\<close> True Inr th
            by (simp add: poll_pass_def poll_attempt_def ticks_sleep)
        qed
      qed
    qed
  qed
qed

lemma poll_loop_silent:
  "engine_silent E url pid n0 \<Longrightarrow> n0 \<le> ticks w \<Longrightarrow>
    \<exists>w'. poll_loop E url (JStr pid) nid timeout start w =
       ((False, JStr (''Workflow timed out after '' @ str_nat timeout @ '' seconds'')), w')
     \<and> int timeout * 1000 \<le> int (clock w') - int start"
proof (induction E url "JStr pid" nid timeout start w rule: poll_loop.induct)
  case (1 E url nid timeout start w)
  show ?case
  proof (cases "int (clock w) - int start < int timeout * 1000")
    case False
    then show ?thesis by (simp add: poll_loop.simps)
  next
    case True
    have "queue_quiet (fst (net E (ticks w) (HttpGet (JStr (url @ ''/queue'')))))"
      and "history_quiet pid (fst (net E (Suc (ticks w)) (HttpGet (JStr (url @ ''/history'')))))"
      using "1.prems" by (auto simp: engine_silent_def)
    then obtain w1 where p: "poll_pass E url (JStr pid) nid start w = (None, w1)"
      and t: "ticks w \<le> ticks w1"
      using quiet_pass by blast
    have "n0 \<le> ticks w1" using "1.prems" t by simp
    then show ?thesis
      using "1.hyps" [OF True p [symmetric] refl "1.prems"(1)] True p
      by (simp add: poll_loop.simps [of E url "JStr pid" nid timeout start w])
  qed
qed

lemma str_nat_600: "str_nat 600 = ''600''"
  by (simp add: str_nat.simps digit_char_def)

lemma sample_silent: "engine_silent sample_env comfy_url ''p-1'' n0"
  by (simp add: engine_silent_def queue_quiet_def history_quiet_def has_len_def sample_env_def
      sample_net_def sample_response_def comfy_url_def)

text \<open>
  C3, as the code has it. The handler has submitted the workflow and holds the id, and
  from then on the engine never lists the id and answers in the shape of its
  interface: every queue and history request fails with a
  \<^verbatim>\<open>RequestException\<close>, answers another status than 200, or answers a JSON object (the
  history one without the id). Then \<open>poll_result\<close> returns the failure
  \<^verbatim>\<open>Workflow timed out after 600 seconds\<close>, not before 600 seconds have passed, and
  the handler returns status 500 with a message that holds it. With any other budget
  the message holds that budget.
\<close>

theorem C3_poll_timeout:
  assumes "handler_prepare E job w = (Next (ps, JStr pid), w1)"
    and "engine_silent E comfy_url pid (ticks w1)"
  shows "fst (poll_result E comfy_url (JStr pid) 221 600 w1)
           = (False, JStr ''Workflow timed out after 600 seconds'')
       \<and> 600000 \<le> int (clock (snd (poll_result E comfy_url (JStr pid) 221 600 w1))) - int (clock w1)
       \<and> fst (handler E job w) = failure 500 ''Workflow failed: Workflow timed out after 600 seconds''
       \<and> status (fst (handler E job w)) = 500
       \<and> occurs_in ''600'' (message (fst (handler E job w)))
       \<and> (\<forall>nid t. fst (poll_result E comfy_url (JStr pid) nid t w1)
             = (False, JStr (''Workflow timed out after '' @ str_nat t @ '' seconds'')))"
proof -
  have general: "\<exists>w'. poll_result E comfy_url (JStr pid) nid t w1 =
       ((False, JStr (''Workflow timed out after '' @ str_nat t @ '' seconds'')), w')
     \<and> int t * 1000 \<le> int (clock w') - int (clock w1)" for nid t
    using poll_loop_silent [OF assms(2) order_refl, of nid t "clock w1"]
    by (simp add: poll_result_def)
  obtain w' where p: "poll_result E comfy_url (JStr pid) 221 600 w1 =
       ((False, JStr ''Workflow timed out after 600 seconds''), w')"
    and c: "600000 \<le> int (clock w') - int (clock w1)"
    using general [of 221 600] by (auto simp: str_nat_600)
  have h: "handler E job w =
      (failure 500 ''Workflow failed: Workflow timed out after 600 seconds'', w')"
    using assms(1) p by (simp add: handler_def handler_body_def)
  have "''Workflow failed: Workflow timed out after 600 seconds''
      = ''Workflow failed: Workflow timed out after '' @ ''600'' @ '' seconds''"
    by simp
  then have o: "occurs_in ''600'' ''Workflow failed: Workflow timed out after 600 seconds''"
    using occurs_in_append [of "''600''" "''Workflow failed: Workflow timed out after ''" "'' seconds''"]
    by simp
  have gen: "fst (poll_result E comfy_url (JStr pid) nid t w1)
      = (False, JStr (''Workflow timed out after '' @ str_nat t @ '' seconds''))" for nid t
    using general [of nid t] by auto
  have "fst (poll_result E comfy_url (JStr pid) 221 600 w1)
           = (False, JStr ''Workflow timed out after 600 seconds'')"
    using p by simp
  moreover have "600000 \<le> int (clock (snd (poll_result E comfy_url (JStr pid) 221 600 w1))) - int (clock w1)"
    using p c by simp
  moreover have "fst (handler E job w) = failure 500 ''Workflow failed: Workflow timed out after 600 seconds''"
    using h by simp
  moreover have "status (fst (handler E job w)) = 500"
    using h by (simp add: failure_def)
  moreover have "occurs_in ''600'' (message (fst (handler E job w)))"
    using h o by (simp add: failure_def)
  ultimately show ?thesis
    using gen by blast
qed

theorem C3_poll_timeout_witness:
  "fst (handler sample_env sample_job sample_world)
     = failure 500 ''Workflow failed: Workflow timed out after 600 seconds''"
proof -
  obtain ps w1 where prep: "handler_prepare sample_env sample_job sample_world = (Next (ps, JStr ''p-1''), w1)"
    using sample_prepare by blast
  show ?thesis
    using C3_poll_timeout [OF prep sample_silent] by simp
qed

text \<open>The same stages in the environment whose queue endpoint answers a list.\<close>

lemma files_advance_queue_list [simp]: "files (advance sample_env_queue_list ms w) = files w"
  by (simp add: advance_def sample_env_queue_list_def sample_env_def)

lemma queue_list_seed:
  "generate_random_seed sample_env_queue_list w = (1000000000000003, advance sample_env_queue_list 0 (logged Random w))"
  by (simp add: generate_random_seed_def randint_def sample_env_queue_list_def sample_env_def)

lemma queue_list_download_image:
  "download_file sample_env_queue_list (JStr ''https://cdn.example/face.jpg'') name w =
     ((True, ''input/'' @ name),
      write_file (''input/'' @ name) sample_image
        (advance sample_env_queue_list 40 (logged (Request (HttpGet (JStr ''https://cdn.example/face.jpg''))) w)))"
  by (simp add: download_file_def http_def sample_env_queue_list_def sample_env_def sample_net_def sample_response_def
      sample_image_def Let_def)

lemma queue_list_download_audio:
  "download_file sample_env_queue_list (JStr ''https://cdn.example/voice.mp3'') name w =
     ((True, ''input/'' @ name),
      write_file (''input/'' @ name) sample_audio
        (advance sample_env_queue_list 30 (logged (Request (HttpGet (JStr ''https://cdn.example/voice.mp3''))) w)))"
  by (simp add: download_file_def http_def sample_env_queue_list_def sample_env_def sample_net_def sample_response_def
      sample_audio_def Let_def)

lemma queue_list_stage:
  "\<exists>w1. stage_assets sample_env_queue_list sample_params w =
      (Next (sample_params\<lparr>seed := 1000000000000003\<rparr>,
         ''input_image_1000000000000003.png'', ''input_audio_1000000000000003.mp3''), w1)
      \<and> files w1 ''multitalk_api.json'' = files w ''multitalk_api.json''"
proof -
  have s: "seed sample_params = - 1" "image_url sample_params = JStr ''https://cdn.example/face.jpg''"
    "audio_url sample_params = JStr ''https://cdn.example/voice.mp3''"
    by (simp_all add: sample_params_def)
  let ?w1 = "advance sample_env_queue_list 0 (logged Random w)"
  let ?w2 = "advance sample_env_queue_list 0 (logged Random ?w1)"
  let ?img = "''input/input_image_1000000000000003.png''"
  let ?w3 = "write_file ?img sample_image
        (advance sample_env_queue_list 40 (logged (Request (HttpGet (JStr ''https://cdn.example/face.jpg''))) ?w2))"
  obtain m w4 where v: "validate_image_file ?img ?w3 = ((True, m), w4)" and f4: "files w4 = files ?w3"
    using sample_validate_image [of ?w3 ?img] by auto
  let ?w5 = "advance sample_env_queue_list 0 (logged Random w4)"
  let ?aud = "''input/input_audio_1000000000000003.mp3''"
  let ?w6 = "write_file ?aud sample_audio
        (advance sample_env_queue_list 30 (logged (Request (HttpGet (JStr ''https://cdn.example/voice.mp3''))) ?w5))"
  obtain m2 w7 where v2: "validate_audio_file ?aud ?w6 = ((True, m2), w7)" and f7: "files w7 = files ?w6"
    using sample_validate_audio [of ?w6 ?aud] by auto
  have "stage_assets sample_env_queue_list sample_params w =
      (Next (sample_params\<lparr>seed := 1000000000000003\<rparr>,
         ''input_image_1000000000000003.png'', ''input_audio_1000000000000003.mp3''), w7)"
    using v v2
    by (simp add: stage_assets_def resolve_seed_def s queue_list_seed sample_truediv sample_str_seed
        queue_list_download_image queue_list_download_audio)
  moreover have "files w7 ''multitalk_api.json'' = files w ''multitalk_api.json''"
    using f4 f7 by simp
  ultimately show ?thesis by blast
qed

lemma queue_list_load:
  assumes "files w ''multitalk_api.json'' = Some b"
  shows "\<exists>w1. load_workflow sample_env_queue_list w = (Next sample_template, w1)"
  using assms
  by (simp add: load_workflow_def path_exists_def read_file_def raising_def sample_env_queue_list_def sample_env_def Let_def)

lemma queue_list_submit: "\<exists>w1. submit_workflow sample_env_queue_list g w = (Next (JStr ''p-1''), w1)"
  by (simp add: submit_workflow_def eval_nat_numeral http_def sample_env_queue_list_def sample_env_def sample_net_def
      comfy_url_def sample_response_def raising_def)

lemma queue_list_extract: "extract_params sample_env_queue_list (JDict sample_input) = Inr sample_params"
  by (simp add: extract_params_def sample_input_def sample_params_def int_literal_eval)

lemma queue_list_prepare:
  "\<exists>ps w1. handler_prepare sample_env_queue_list sample_job sample_world = (Next (ps, JStr ''p-1''), w1)"
proof -
  obtain w2 where st: "stage_assets sample_env_queue_list sample_params sample_world =
      (Next (sample_params\<lparr>seed := 1000000000000003\<rparr>,
         ''input_image_1000000000000003.png'', ''input_audio_1000000000000003.mp3''), w2)"
    and f2: "files w2 ''multitalk_api.json'' = files sample_world ''multitalk_api.json''"
    using queue_list_stage by blast
  have "files w2 ''multitalk_api.json'' = Some ''{}''"
    using f2 by (simp add: sample_world_def)
  then obtain w3 where ld: "load_workflow sample_env_queue_list w2 = (Next sample_template, w3)"
    using queue_list_load by blast
  obtain g where b: "bind_workflow sample_env_queue_list ''input_image_1000000000000003.png''
      ''input_audio_1000000000000003.mp3'' (sample_params\<lparr>seed := 1000000000000003\<rparr>) sample_template = Inr g"
    using sample_bind_any by blast
  obtain w5 where sb: "submit_workflow sample_env_queue_list g w3 = (Next (JStr ''p-1''), w5)"
    using queue_list_submit by blast
  have "handler_prepare sample_env_queue_list sample_job sample_world =
      (Next (sample_params\<lparr>seed := 1000000000000003\<rparr>, JStr ''p-1''), w5)"
    using st ld b sb
    by (simp add: handler_prepare_def and_then_def raising_def sample_check_request queue_list_extract)
  then show ?thesis by blast
qed

lemma queue_list_history: "history_never_lists sample_env_queue_list comfy_url ''p-1''"
  by (simp add: history_never_lists_def history_quiet_def sample_env_queue_list_def sample_env_def
      sample_net_def sample_response_def comfy_url_def)

lemma queue_list_poll:
  "poll_result sample_env_queue_list comfy_url pid nid 600 w =
     ((False, JStr (''Poll exception: '' @ [CHR 0x27] @ ''list'' @ [CHR 0x27]
         @ '' object has no attribute '' @ [CHR 0x27] @ ''get'' @ [CHR 0x27])),
      advance sample_env_queue_list 5
        (logged (Request (HttpGet (JStr ''http://127.0.0.1:8188/queue''))) w))"
  by (simp add: poll_result_def poll_loop.simps poll_pass_def poll_attempt_def poll_queue_def
      http_def sample_env_queue_list_def sample_env_def sample_response_def comfy_url_def
      repr_str_def repr_char_def printable_def Let_def)

text \<open>
  The claim as stated fails. The engine accepts the sample job under the id \<^verbatim>\<open>p-1\<close>,
  no history answer ever lists the id, and the queue endpoint answers 200 with the JSON
  list \<^verbatim>\<open>[]\<close>. Line 209 raises AttributeError, which is not a \<^verbatim>\<open>RequestException\<close>, and
  lines 269 and 270 return at once: the outcome is the \<^verbatim>\<open>Poll exception\<close> failure after
  5 milliseconds, not the timeout, and the message of the job result does not hold the
  budget of 600 seconds.
\<close>

theorem C3_counterexample:
  "history_never_lists sample_env_queue_list comfy_url ''p-1''
   \<and> fst (poll_result sample_env_queue_list comfy_url (JStr ''p-1'') 221 600 sample_world)
       = (False, JStr (''Poll exception: '' @ [CHR 0x27] @ ''list'' @ [CHR 0x27]
            @ '' object has no attribute '' @ [CHR 0x27] @ ''get'' @ [CHR 0x27]))
   \<and> fst (poll_result sample_env_queue_list comfy_url (JStr ''p-1'') 221 600 sample_world)
       \<noteq> (False, JStr ''Workflow timed out after 600 seconds'')
   \<and> clock (snd (poll_result sample_env_queue_list comfy_url (JStr ''p-1'') 221 600 sample_world)) = 5
   \<and> fst (handler sample_env_queue_list sample_job sample_world)
       = failure 500 (''Workflow failed: Poll exception: '' @ [CHR 0x27] @ ''list'' @ [CHR 0x27]
            @ '' object has no attribute '' @ [CHR 0x27] @ ''get'' @ [CHR 0x27])
   \<and> \<not> occurs_in ''600'' (message (fst (handler sample_env_queue_list sample_job sample_world)))
   \<and> \<not> occurs_in ''timed out'' (message (fst (handler sample_env_queue_list sample_job sample_world)))"
proof -
  obtain ps w1 where prep:
    "handler_prepare sample_env_queue_list sample_job sample_world = (Next (ps, JStr ''p-1''), w1)"
    using queue_list_prepare by blast
  have h: "fst (handler sample_env_queue_list sample_job sample_world)
       = failure 500 (''Workflow failed: Poll exception: '' @ [CHR 0x27] @ ''list'' @ [CHR 0x27]
            @ '' object has no attribute '' @ [CHR 0x27] @ ''get'' @ [CHR 0x27])"
    using prep by (simp add: handler_def handler_body_def queue_list_poll)
  have p: "fst (poll_result sample_env_queue_list comfy_url (JStr ''p-1'') 221 600 sample_world)
       = (False, JStr (''Poll exception: '' @ [CHR 0x27] @ ''list'' @ [CHR 0x27]
            @ '' object has no attribute '' @ [CHR 0x27] @ ''get'' @ [CHR 0x27]))"
    by (simp add: queue_list_poll)
  have c: "clock (snd (poll_result sample_env_queue_list comfy_url (JStr ''p-1'') 221 600 sample_world)) = 5"
    by (simp add: queue_list_poll advance_def logged_def sample_world_def)
  have n1: "\<not> occurs_in ''600'' (message (fst (handler sample_env_queue_list sample_job sample_world)))"
    unfolding h by (simp add: failure_def)
  have n2: "\<not> occurs_in ''timed out'' (message (fst (handler sample_env_queue_list sample_job sample_world)))"
    unfolding h by (simp add: failure_def)
  show ?thesis
    using queue_list_history p c h n1 n2 by simp
qed

subsection \<open>The seed\<close>






subsection \<open>The validators\<close>

lemma twelve_bytes:
  assumes "length (h :: string) = 12"
  obtains a b c d e f g i j k l m where "h = [a, b, c, d, e, f, g, i, j, k, l, m]"
  using assms by (auto simp: eval_nat_numeral length_Suc_conv)

lemma wav_header:
  assumes "12 \<le> length b" and "slice b 0 4 = ''RIFF''" and "slice b 8 12 = ''WAVE''"
  obtains x1 x2 x3 x4 where
    "take 12 b = [CHR ''R'', CHR ''I'', CHR ''F'', CHR ''F'', x1, x2, x3, x4,
                  CHR ''W'', CHR ''A'', CHR ''V'', CHR ''E'']"
proof -
  have "length (take 12 b) = 12" using assms(1) by simp
  then obtain a0 a1 a2 a3 a4 a5 a6 a7 a8 a9 a10 a11 where
    h: "take 12 b = [a0, a1, a2, a3, a4, a5, a6, a7, a8, a9, a10, a11]"
    by (rule twelve_bytes)
  have "take 4 (take 12 b) = ''RIFF''"
    using assms(2) by (simp add: slice_def)
  then have r: "a0 = CHR ''R''" "a1 = CHR ''I''" "a2 = CHR ''F''" "a3 = CHR ''F''"
    unfolding h by simp_all
  have "take 4 (drop 8 (take 12 b)) = ''WAVE''"
    using assms(3) by (simp add: slice_def take_drop)
  then have v: "a8 = CHR ''W''" "a9 = CHR ''A''" "a10 = CHR ''V''" "a11 = CHR ''E''"
    unfolding h by simp_all
  show thesis
    using that [of a4 a5 a6 a7] h r v by simp
qed

lemma validate_audio_wav:
  assumes "files w p = Some b" and "100 \<le> length b"
    and "slice b 0 4 = ''RIFF''" and "slice b 8 12 = ''WAVE''"
  shows "fst (validate_audio_file p w) = (True, ''Valid WAV audio ('' @ str_nat (length b) @ '' bytes)'')"
proof -
  obtain x1 x2 x3 x4 where
    h: "take 12 b = [CHR ''R'', CHR ''I'', CHR ''F'', CHR ''F'', x1, x2, x3, x4,
                  CHR ''W'', CHR ''A'', CHR ''V'', CHR ''E'']"
    using assms(2-4) by (elim wav_header [rotated]) simp_all
  show ?thesis
    using assms(1,2) h
    by (simp add: validate_audio_file_def path_exists_def getsize_def read_head_def slice_def)
qed

lemma doctype_not_image: "imghdr_what (take 32 (''<!DOCTYPE html>'' @ rest)) = None"
  by (simp add: imghdr_what_def slice_def startswith_def test_pnm_def)

lemma validate_image_doctype:
  assumes "files w p = Some (''<!DOCTYPE html>'' @ rest)"
  shows "fst (validate_image_file p w) =
     (False, if length (''<!DOCTYPE html>'' @ rest) < 100
             then ''File too small ('' @ str_nat (length (''<!DOCTYPE html>'' @ rest))
                    @ '' bytes), likely an error response''
             else ''File contains HTML/XML (likely an error page)'')"
  using assms doctype_not_image [of rest]
  by (simp add: validate_image_file_def path_exists_def getsize_def read_head_def)

lemma validate_audio_doctype:
  assumes "files w p = Some (''<!DOCTYPE html>'' @ rest)"
  shows "fst (validate_audio_file p w) =
     (False, if length (''<!DOCTYPE html>'' @ rest) < 100
             then ''File too small ('' @ str_nat (length (''<!DOCTYPE html>'' @ rest))
                    @ '' bytes), likely an error response''
             else ''File contains HTML (likely an error page)'')"
  using assms
  by (simp add: validate_audio_file_def path_exists_def getsize_def read_head_def)

lemma says_too_small:
  "occurs_in ''likely an error'' (''File too small ('' @ str_nat n @ '' bytes), likely an error response'')"
proof -
  have "''File too small ('' @ str_nat n @ '' bytes), likely an error response''
      = (''File too small ('' @ str_nat n @ '' bytes), '') @ ''likely an error'' @ '' response''"
    by simp
  then show ?thesis
    by (simp only: occurs_in_append)
qed

lemma says_html:
  "occurs_in ''likely an error'' (''File contains HTML'' @ x @ '' (likely an error page)'')"
proof -
  have "''File contains HTML'' @ x @ '' (likely an error page)''
      = (''File contains HTML'' @ x @ '' ('') @ ''likely an error'' @ '' page)''"
    by simp
  then show ?thesis
    by (simp only: occurs_in_append)
qed

lemma says_likely_an_error:
  "occurs_in ''likely an error''
     (snd (c, if n < 100 then ''File too small ('' @ str_nat n @ '' bytes), likely an error response''
      else ''File contains HTML/XML (likely an error page)''))"
  "occurs_in ''likely an error''
     (snd (c, if n < 100 then ''File too small ('' @ str_nat n @ '' bytes), likely an error response''
      else ''File contains HTML (likely an error page)''))"
  using says_too_small [of n] says_html [of "''/XML''"] says_html [of "[]"]
  by (simp_all only: snd_conv append_Nil append_Cons if_split) simp_all

text \<open>
  C8. A file of at least 100 bytes whose bytes 0 to 3 are \<^verbatim>\<open>RIFF\<close> and whose bytes 8 to
  11 are \<^verbatim>\<open>WAVE\<close> is valid audio. A file that begins with \<^verbatim>\<open><!DOCTYPE html>\<close> is
  invalid for both validators: from 100 bytes on with the message that the file
  contains HTML (likely an error page), below 100 bytes, where the size check comes
  first, with the message that it is too small (likely an error response).
\<close>

theorem C8_validators:
  "(files w p = Some b \<and> 100 \<le> length b \<and> slice b 0 4 = ''RIFF'' \<and> slice b 8 12 = ''WAVE''
      \<longrightarrow> fst (validate_audio_file p w)
            = (True, ''Valid WAV audio ('' @ str_nat (length b) @ '' bytes)''))
   \<and> (files w p = Some (''<!DOCTYPE html>'' @ rest)
      \<longrightarrow> fst (validate_image_file p w) =
            (False, if length (''<!DOCTYPE html>'' @ rest) < 100
                    then ''File too small ('' @ str_nat (length (''<!DOCTYPE html>'' @ rest))
                           @ '' bytes), likely an error response''
                    else ''File contains HTML/XML (likely an error page)'')
        \<and> fst (validate_audio_file p w) =
            (False, if length (''<!DOCTYPE html>'' @ rest) < 100
                    then ''File too small ('' @ str_nat (length (''<!DOCTYPE html>'' @ rest))
                           @ '' bytes), likely an error response''
                    else ''File contains HTML (likely an error page)'')
        \<and> occurs_in ''likely an error'' (snd (fst (validate_image_file p w)))
        \<and> occurs_in ''likely an error'' (snd (fst (validate_audio_file p w))))"
proof (intro conjI impI)
  assume "files w p = Some b \<and> 100 \<le> length b \<and> slice b 0 4 = ''RIFF'' \<and> slice b 8 12 = ''WAVE''"
  then show "fst (validate_audio_file p w)
            = (True, ''Valid WAV audio ('' @ str_nat (length b) @ '' bytes)'')"
    using validate_audio_wav by blast
next
  assume f: "files w p = Some (''<!DOCTYPE html>'' @ rest)"
  let ?n = "length (''<!DOCTYPE html>'' @ rest)"
  show i: "fst (validate_image_file p w) =
            (False, if ?n < 100
                    then ''File too small ('' @ str_nat ?n @ '' bytes), likely an error response''
                    else ''File contains HTML/XML (likely an error page)'')"
    using f by (rule validate_image_doctype)
  show a: "fst (validate_audio_file p w) =
            (False, if ?n < 100
                    then ''File too small ('' @ str_nat ?n @ '' bytes), likely an error response''
                    else ''File contains HTML (likely an error page)'')"
    using f by (rule validate_audio_doctype)
  show "occurs_in ''likely an error'' (snd (fst (validate_image_file p w)))"
    unfolding i by (rule says_likely_an_error)
  show "occurs_in ''likely an error'' (snd (fst (validate_audio_file p w)))"
    unfolding a by (rule says_likely_an_error)
qed

lemma str_nat_samples: "str_nat 116 = ''116''" "str_nat 26 = ''26''"
  by (simp_all add: str_nat.simps digit_char_def)

theorem C8_validators_witness:
  "fst (validate_audio_file ''input/a.wav'' sample_files) = (True, ''Valid WAV audio (116 bytes)'')
   \<and> fst (validate_image_file ''input/b.png'' sample_files)
       = (False, ''File contains HTML/XML (likely an error page)'')
   \<and> fst (validate_audio_file ''input/b.png'' sample_files)
       = (False, ''File contains HTML (likely an error page)'')
   \<and> fst (validate_image_file ''input/c.png'' sample_files)
       = (False, ''File too small (26 bytes), likely an error response'')"
proof -
  have a: "fst (validate_audio_file ''input/a.wav'' sample_files) = (True, ''Valid WAV audio (116 bytes)'')"
    using C8_validators [of sample_files "''input/a.wav''" sample_wav]
    by (simp add: sample_files_def sample_wav_def slice_def str_nat_samples)
  have b: "fst (validate_image_file ''input/b.png'' sample_files)
       = (False, ''File contains HTML/XML (likely an error page)'')
     \<and> fst (validate_audio_file ''input/b.png'' sample_files)
       = (False, ''File contains HTML (likely an error page)'')"
    using C8_validators [of sample_files "''input/b.png''" "[]"
        "''<html><head><title>403 Forbidden</title></head>''
         @ ''<body><h1>Access Denied</h1><p>Request has expired</p></body></html>''"]
    by (simp add: sample_files_def sample_page_def)
  have len: "length (''<!DOCTYPE html>'' @ ''<p>gone</p>'') = 26"
    by simp
  have f: "files sample_files ''input/c.png'' = Some (''<!DOCTYPE html>'' @ ''<p>gone</p>'')"
    by (simp add: sample_files_def)
  have "fst (validate_image_file ''input/c.png'' sample_files) =
      (False, if length (''<!DOCTYPE html>'' @ ''<p>gone</p>'') < 100
              then ''File too small ('' @ str_nat (length (''<!DOCTYPE html>'' @ ''<p>gone</p>''))
                     @ '' bytes), likely an error response''
              else ''File contains HTML/XML (likely an error page)'')"
    using C8_validators [of sample_files "''input/c.png''" "[]" "''<p>gone</p>''"] f by blast
  then have c: "fst (validate_image_file ''input/c.png'' sample_files)
       = (False, ''File too small (26 bytes), likely an error response'')"
    unfolding len by (simp add: str_nat_samples)
  show ?thesis using a b c by simp
qed

end
